theory Spec2Isabelle
  imports Main
begin

section \<open>C++ types\<close>

text \<open>
  The library computes on types during compilation, so the data of this development is a
  datatype of C++ types.  Only \<open>const\<close> is tracked as a cv-qualifier.  Types are kept in
  the normal form of the language: a reference never refers to a reference (reference
  collapsing), \<open>const\<close> is never applied twice, never to a reference, and a const array is
  an array of const elements.  \<open>Nonesuch\<close> is \<open>detail::nonesuch\<close>, \<open>Dangling T\<close> is
  \<open>dangling<T>\<close>, \<open>Tag c\<close> are the iterator category tags of the standard library,
  \<open>StdLess\<close> and \<open>StdEqualTo\<close> are \<open>std::less<>\<close> and \<open>std::equal_to<>\<close> (the default
  comparators of the algorithms), \<open>Long\<close> is \<open>std::ptrdiff_t\<close> and \<open>ULong\<close> is
  \<open>std::size_t\<close>.
\<close>

datatype category = Input | Output | Forward | Bidirectional | RandomAccess

datatype cpptype =
    Void | Bool | SInt | UInt | Long | ULong
  | Ptr cpptype
  | Arr cpptype nat
  | Const cpptype
  | LRef cpptype
  | RRef cpptype
  | Class string
  | Nonesuch
  | Dangling cpptype
  | Tag category
  | StdLess
  | StdEqualTo

fun remove_reference :: "cpptype \<Rightarrow> cpptype" where
  "remove_reference (LRef T) = T"
| "remove_reference (RRef T) = T"
| "remove_reference T = T"

fun is_reference :: "cpptype \<Rightarrow> bool" where
  "is_reference (LRef T) = True"
| "is_reference (RRef T) = True"
| "is_reference T = False"

fun is_lvalue_reference :: "cpptype \<Rightarrow> bool" where
  "is_lvalue_reference (LRef T) = True"
| "is_lvalue_reference T = False"

text \<open>\<open>T&\<close> and \<open>T&&\<close> with reference collapsing, \<open>const T\<close>.\<close>

definition lref :: "cpptype \<Rightarrow> cpptype" where
  "lref T = LRef (remove_reference T)"

fun rref :: "cpptype \<Rightarrow> cpptype" where
  "rref (LRef T) = LRef T"
| "rref (RRef T) = RRef T"
| "rref T = RRef T"

fun add_const :: "cpptype \<Rightarrow> cpptype" where
  "add_const (LRef T) = LRef T"
| "add_const (RRef T) = RRef T"
| "add_const (Const T) = Const T"
| "add_const (Arr T n) = Arr (add_const T) n"
| "add_const T = Const T"

fun remove_cv :: "cpptype \<Rightarrow> cpptype" where
  "remove_cv (Const T) = remove_cv T"
| "remove_cv (Arr T n) = Arr (remove_cv T) n"
| "remove_cv T = T"

fun is_const :: "cpptype \<Rightarrow> bool" where
  "is_const (Const T) = True"
| "is_const (Arr T n) = is_const T"
| "is_const T = False"

fun is_void :: "cpptype \<Rightarrow> bool" where
  "is_void Void = True"
| "is_void (Const T) = is_void T"
| "is_void T = False"

fun is_array :: "cpptype \<Rightarrow> bool" where
  "is_array (Arr T n) = True"
| "is_array T = False"

fun is_pointer :: "cpptype \<Rightarrow> bool" where
  "is_pointer (Ptr T) = True"
| "is_pointer (Const T) = is_pointer T"
| "is_pointer T = False"

definition is_object :: "cpptype \<Rightarrow> bool" where
  "is_object T = (\<not> is_reference T \<and> \<not> is_void T)"

text \<open>\<open>std::decay_t\<close>: drop the reference, then arrays become pointers and cv goes.\<close>

definition decay :: "cpptype \<Rightarrow> cpptype" where
  "decay T = (case remove_reference T of Arr E n \<Rightarrow> Ptr E | U \<Rightarrow> remove_cv U)"

text \<open>A class type, possibly const: the types that have members and overloaded operators.\<close>

fun is_class :: "cpptype \<Rightarrow> bool" where
  "is_class (Class c) = True"
| "is_class Nonesuch = True"
| "is_class (Dangling T) = True"
| "is_class (Tag c) = True"
| "is_class StdLess = True"
| "is_class StdEqualTo = True"
| "is_class (Const T) = is_class T"
| "is_class T = False"

fun is_arithmetic :: "cpptype \<Rightarrow> bool" where
  "is_arithmetic Bool = True"
| "is_arithmetic SInt = True"
| "is_arithmetic UInt = True"
| "is_arithmetic Long = True"
| "is_arithmetic ULong = True"
| "is_arithmetic T = False"

definition is_integral :: "cpptype \<Rightarrow> bool" where
  "is_integral T = is_arithmetic (remove_cv T)"

definition is_signed :: "cpptype \<Rightarrow> bool" where
  "is_signed T = (remove_cv T = SInt \<or> remove_cv T = Long)"

text \<open>\<open>std::make_signed\<close>; it has no member \<open>type\<close> for \<open>bool\<close> and for non-integral types.\<close>

fun make_signed :: "cpptype \<Rightarrow> cpptype option" where
  "make_signed SInt = Some SInt"
| "make_signed UInt = Some SInt"
| "make_signed Long = Some Long"
| "make_signed ULong = Some Long"
| "make_signed (Const T) = map_option Const (make_signed T)"
| "make_signed T = None"

section \<open>Detection idiom\<close>

text \<open>
  A type-level operation \<open>Op<Args...>\<close> is a partial function from its arguments to a
  type; \<open>None\<close> is a substitution failure.  \<open>detector\<close> has the primary template, taken when
  \<open>void_t<Op<Args...>>\<close> is ill-formed, and the partial specialisation.
\<close>

definition detector :: "cpptype \<Rightarrow> ('a \<Rightarrow> cpptype option) \<Rightarrow> 'a \<Rightarrow> bool \<times> cpptype" where
  "detector Default Op Args =
     (case Op Args of None \<Rightarrow> (False, Default) | Some T \<Rightarrow> (True, T))"

definition is_detected :: "('a \<Rightarrow> cpptype option) \<Rightarrow> 'a \<Rightarrow> bool" where
  "is_detected Op Args = fst (detector Nonesuch Op Args)"

definition detected_t :: "('a \<Rightarrow> cpptype option) \<Rightarrow> 'a \<Rightarrow> cpptype" where
  "detected_t Op Args = snd (detector Nonesuch Op Args)"

definition detected_or_t :: "cpptype \<Rightarrow> ('a \<Rightarrow> cpptype option) \<Rightarrow> 'a \<Rightarrow> cpptype" where
  "detected_or_t Default Op Args = snd (detector Default Op Args)"

definition Same :: "cpptype \<Rightarrow> cpptype \<Rightarrow> bool" where
  "Same T U = (T = U)"

definition is_detected_exact :: "cpptype \<Rightarrow> ('a \<Rightarrow> cpptype option) \<Rightarrow> 'a \<Rightarrow> bool" where
  "is_detected_exact Expected Op Args = Same Expected (detected_t Op Args)"

section \<open>Expressions and the program under compilation\<close>

text \<open>
  An expression is known by its type and value category, written as \<open>decltype((e))\<close>
  writes them: \<open>LRef T\<close> for an lvalue of type \<open>T\<close>, \<open>RRef T\<close> for an xvalue, \<open>T\<close> for a
  prvalue.  \<open>declval<T>()\<close> has the expression type \<open>rref T\<close>.

  What the user's classes declare is the environment: every field answers one kind of
  query of the compiler about class types; \<open>None\<close> (or \<open>False\<close>) says that the
  expression is ill-formed.  The built-in types need no environment: their rules are those
  of the core language and are written out below.
\<close>

datatype uop = Deref | Pre_inc | Post_inc | Pre_dec | Post_dec | Log_not

datatype bop = B_eq | B_ne | B_lt | B_gt | B_le | B_ge | B_and | B_or
  | B_add | B_sub | B_add_assign | B_sub_assign | B_subscript | B_assign

record env =
  member_fn :: "string \<Rightarrow> cpptype \<Rightarrow> cpptype option"
  member_type :: "string \<Rightarrow> cpptype \<Rightarrow> cpptype option"
  adl_fn :: "string \<Rightarrow> cpptype \<Rightarrow> cpptype option"
  class_unop :: "uop \<Rightarrow> cpptype \<Rightarrow> cpptype option"
  class_binop :: "bop \<Rightarrow> cpptype \<Rightarrow> cpptype \<Rightarrow> cpptype option"
  class_swap :: "cpptype \<Rightarrow> cpptype \<Rightarrow> cpptype option"
  class_constructible :: "cpptype \<Rightarrow> cpptype list \<Rightarrow> bool"
  class_destructible :: "cpptype \<Rightarrow> bool"
  class_convertible :: "cpptype \<Rightarrow> cpptype \<Rightarrow> bool"
  class_base_of :: "cpptype \<Rightarrow> cpptype \<Rightarrow> bool"
  class_result_of :: "cpptype \<Rightarrow> cpptype list \<Rightarrow> cpptype option"
  class_iterator_category :: "cpptype \<Rightarrow> cpptype option"

text \<open>
  \<open>member_fn env f T\<close> is \<open>decltype(std::declval<T&>().f())\<close> for a class \<open>T\<close>,
  \<open>member_type env n T\<close> is \<open>typename T::n\<close>, and \<open>adl_fn env f T\<close> is
  \<open>decltype(f(std::declval<T&>()))\<close> for the unqualified call made where the deleted
  \<open>template <typename T> void f(T&) = delete\<close> is in scope: \<open>None\<close> where no function
  found by argument-dependent lookup is a better match than the deleted one.
\<close>

text \<open>
  A type declared by the user's program, whose properties the environment gives.
  \<open>dangling<T>\<close> is one of them: but for \<open>get_unsafe\<close>, what its constructors and its
  implicit members allow is asked of the environment.
\<close>

fun is_user_class :: "cpptype \<Rightarrow> bool" where
  "is_user_class (Class c) = True"
| "is_user_class (Dangling T) = True"
| "is_user_class (Const T) = is_user_class T"
| "is_user_class T = False"

definition user_operand :: "cpptype \<Rightarrow> bool" where
  "user_operand E = is_user_class (remove_reference E)"

definition class_operand :: "cpptype \<Rightarrow> bool" where
  "class_operand E = is_class (remove_reference E)"

subsection \<open>Built-in operators\<close>

definition is_scalar :: "cpptype \<Rightarrow> bool" where
  "is_scalar T = (is_arithmetic T \<or> (case T of Ptr X \<Rightarrow> True | _ \<Rightarrow> False))"

text \<open>The usual arithmetic conversions on the integral types of the model (LP64).\<close>

definition arith_conv :: "cpptype \<Rightarrow> cpptype \<Rightarrow> cpptype" where
  "arith_conv A B =
     (if A = ULong \<or> B = ULong then ULong
      else if A = Long \<or> B = Long then Long
      else if A = UInt \<or> B = UInt then UInt
      else SInt)"

text \<open>A type on which \<open>++\<close> and \<open>--\<close> are built in: a pointer to an object or a number.\<close>

definition steppable :: "cpptype \<Rightarrow> bool" where
  "steppable U = (case U of Ptr X \<Rightarrow> is_object X | Bool \<Rightarrow> False | _ \<Rightarrow> is_arithmetic U)"

definition builtin_unop :: "uop \<Rightarrow> cpptype \<Rightarrow> cpptype option" where
  "builtin_unop f E =
     (let U = remove_reference E in
      case f of
        Deref \<Rightarrow> (case decay E of Ptr X \<Rightarrow> if is_void X then None else Some (LRef X)
                   | _ \<Rightarrow> None)
      | Log_not \<Rightarrow> if is_scalar (decay E) then Some Bool else None
      | Pre_inc \<Rightarrow> if is_lvalue_reference E \<and> steppable U then Some (LRef U) else None
      | Pre_dec \<Rightarrow> if is_lvalue_reference E \<and> steppable U then Some (LRef U) else None
      | Post_inc \<Rightarrow> if is_lvalue_reference E \<and> steppable U then Some U else None
      | Post_dec \<Rightarrow> if is_lvalue_reference E \<and> steppable U then Some U else None)"

text \<open>
  Two pointer types that can be compared and subtracted: the same up to \<open>const\<close>.
  Comparing a pointer with a \<open>void*\<close> or with a pointer to a base class is left out.
\<close>

definition similar_ptr :: "cpptype \<Rightarrow> cpptype \<Rightarrow> bool" where
  "similar_ptr A B =
     (case (A, B) of (Ptr X, Ptr Y) \<Rightarrow> remove_cv X = remove_cv Y | _ \<Rightarrow> False)"

definition ptr_to_object :: "cpptype \<Rightarrow> bool" where
  "ptr_to_object A = (case A of Ptr X \<Rightarrow> is_object X | _ \<Rightarrow> False)"

definition builtin_compare :: "cpptype \<Rightarrow> cpptype \<Rightarrow> cpptype option" where
  "builtin_compare A B =
     (if (is_arithmetic A \<and> is_arithmetic B) \<or> similar_ptr A B then Some Bool else None)"

definition builtin_logical :: "cpptype \<Rightarrow> cpptype \<Rightarrow> cpptype option" where
  "builtin_logical A B = (if is_scalar A \<and> is_scalar B then Some Bool else None)"

subsection \<open>Conversions\<close>

text \<open>\<open>tag_base b d\<close>: the category tag \<open>d\<close> is \<open>b\<close> or is derived from it.\<close>

fun tag_rank :: "category \<Rightarrow> nat" where
  "tag_rank Input = 0"
| "tag_rank Output = 0"
| "tag_rank Forward = 1"
| "tag_rank Bidirectional = 2"
| "tag_rank RandomAccess = 3"

definition tag_base :: "category \<Rightarrow> category \<Rightarrow> bool" where
  "tag_base b d = (b = d \<or> (b \<noteq> Output \<and> d \<noteq> Output \<and> tag_rank b \<le> tag_rank d))"

text \<open>\<open>std::is_base_of<B, D>\<close>.\<close>

definition is_base_of :: "env \<Rightarrow> cpptype \<Rightarrow> cpptype \<Rightarrow> bool" where
  "is_base_of env B D =
     (let B' = remove_cv B; D' = remove_cv D in
      is_class B' \<and> is_class D' \<and>
      (B' = D' \<or>
       (if is_user_class D' then class_base_of env B' D'
        else (case (B', D') of (Tag b, Tag d) \<Rightarrow> tag_base b d | _ \<Rightarrow> False))))"

text \<open>Reference binding: \<open>T&\<close> or \<open>T&&\<close> binds directly to an expression of type \<open>S\<close>.\<close>

definition reference_related :: "env \<Rightarrow> cpptype \<Rightarrow> cpptype \<Rightarrow> bool" where
  "reference_related env S T = (remove_cv S = remove_cv T \<or> is_base_of env T S)"

definition ref_compatible :: "env \<Rightarrow> cpptype \<Rightarrow> cpptype \<Rightarrow> bool" where
  "ref_compatible env S T = (reference_related env S T \<and> (is_const S \<longrightarrow> is_const T))"

text \<open>
  Pointer conversions: adding \<open>const\<close> on the first level, to \<open>void*\<close>, and from derived
  to base.  Qualification conversions on deeper levels are left out.
\<close>

definition ptr_conv :: "env \<Rightarrow> cpptype \<Rightarrow> cpptype \<Rightarrow> bool" where
  "ptr_conv env X Y =
     (Y = X \<or> Y = add_const X \<or>
      ((is_void Y \<or> (is_class X \<and> is_class Y \<and> is_base_of env Y X)) \<and>
       (is_const X \<longrightarrow> is_const Y)))"

text \<open>
  Implicit conversion of a value of the decayed built-in type \<open>A\<close> to the cv-unqualified
  built-in type \<open>B\<close>.
\<close>

definition builtin_value_conv :: "env \<Rightarrow> cpptype \<Rightarrow> cpptype \<Rightarrow> bool" where
  "builtin_value_conv env A B =
     ((is_arithmetic A \<and> is_arithmetic B) \<or>
      (case (A, B) of
         (Ptr X, Ptr Y) \<Rightarrow> ptr_conv env X Y
       | (Ptr X, Bool) \<Rightarrow> True
       | _ \<Rightarrow> False))"

text \<open>
  The classes of the standard library in the model are empty and copyable; a tag converts
  to its bases.  \<open>nonesuch\<close> converts to nothing and nothing converts to it: its copy
  constructor and its destructor are deleted.
\<close>

definition std_class_conv :: "cpptype \<Rightarrow> cpptype \<Rightarrow> bool" where
  "std_class_conv S B =
     (case (S, B) of
        (Tag d, Tag b) \<Rightarrow> tag_base b d
      | (StdLess, StdLess) \<Rightarrow> True
      | (StdEqualTo, StdEqualTo) \<Rightarrow> True
      | _ \<Rightarrow> False)"

definition value_conv :: "env \<Rightarrow> cpptype \<Rightarrow> cpptype \<Rightarrow> bool" where
  "value_conv env From B =
     (if user_operand From \<or> is_user_class B then class_convertible env From B
      else if class_operand From \<or> is_class B
        then std_class_conv (remove_cv (remove_reference From)) B
      else builtin_value_conv env (decay From) B)"

text \<open>
  \<open>std::is_convertible<From, To>\<close>: a function returning \<open>To\<close> may return
  \<open>std::declval<From>()\<close>.
\<close>

definition is_convertible :: "env \<Rightarrow> cpptype \<Rightarrow> cpptype \<Rightarrow> bool" where
  "is_convertible env From To =
     (let S = remove_reference From; lv = is_lvalue_reference From in
      if is_void To then is_void From
      else if is_void From then False
      else (case To of
              LRef T \<Rightarrow>
                if reference_related env S T
                then ref_compatible env S T \<and> (lv \<or> is_const T)
                else is_const T \<and> \<not> is_array T \<and> value_conv env From (remove_cv T)
            | RRef T \<Rightarrow>
                if reference_related env S T
                then ref_compatible env S T \<and> \<not> lv
                else \<not> is_array T \<and> value_conv env From (remove_cv T)
            | _ \<Rightarrow> \<not> is_array To \<and> value_conv env From (remove_cv To)))"

subsection \<open>Operators\<close>

definition builtin_additive :: "bool \<Rightarrow> cpptype \<Rightarrow> cpptype \<Rightarrow> cpptype option" where
  "builtin_additive sub A B =
     (if is_arithmetic A \<and> is_arithmetic B then Some (arith_conv A B)
      else if ptr_to_object A \<and> is_arithmetic B then Some A
      else if \<not> sub \<and> is_arithmetic A \<and> ptr_to_object B then Some B
      else if sub \<and> ptr_to_object A \<and> similar_ptr A B then Some Long
      else None)"

definition builtin_compound :: "cpptype \<Rightarrow> cpptype \<Rightarrow> cpptype option" where
  "builtin_compound E1 B =
     (let U = remove_reference E1 in
      if is_lvalue_reference E1 \<and> is_arithmetic B \<and> (ptr_to_object U \<or> is_arithmetic U)
      then Some (LRef U) else None)"

definition builtin_subscript :: "cpptype \<Rightarrow> cpptype \<Rightarrow> cpptype option" where
  "builtin_subscript A B =
     (case (A, B) of
        (Ptr X, _) \<Rightarrow> if is_object X \<and> is_arithmetic B then Some (LRef X) else None
      | (_, Ptr Y) \<Rightarrow> if is_object Y \<and> is_arithmetic A then Some (LRef Y) else None
      | _ \<Rightarrow> None)"

text \<open>Built-in assignment: the left operand is a modifiable lvalue of scalar type.\<close>

definition builtin_assign :: "env \<Rightarrow> cpptype \<Rightarrow> cpptype \<Rightarrow> cpptype option" where
  "builtin_assign env E1 E2 =
     (let U = remove_reference E1 in
      if is_lvalue_reference E1 \<and> is_scalar U \<and> is_convertible env E2 U
      then Some (LRef U) else None)"

definition builtin_binop :: "env \<Rightarrow> bop \<Rightarrow> cpptype \<Rightarrow> cpptype \<Rightarrow> cpptype option" where
  "builtin_binop env f E1 E2 =
     (let A = decay E1; B = decay E2 in
      case f of
        B_eq \<Rightarrow> builtin_compare A B
      | B_ne \<Rightarrow> builtin_compare A B
      | B_lt \<Rightarrow> builtin_compare A B
      | B_gt \<Rightarrow> builtin_compare A B
      | B_le \<Rightarrow> builtin_compare A B
      | B_ge \<Rightarrow> builtin_compare A B
      | B_and \<Rightarrow> builtin_logical A B
      | B_or \<Rightarrow> builtin_logical A B
      | B_add \<Rightarrow> builtin_additive False A B
      | B_sub \<Rightarrow> builtin_additive True A B
      | B_add_assign \<Rightarrow> builtin_compound E1 B
      | B_sub_assign \<Rightarrow> builtin_compound E1 B
      | B_subscript \<Rightarrow> builtin_subscript A B
      | B_assign \<Rightarrow> builtin_assign env E1 E2)"

text \<open>
  The classes of the standard library in the model have no operator but their implicit
  copy assignment, which a class also accepts on an rvalue; \<open>nonesuch\<close> has none at all.
\<close>

definition std_class_binop :: "bop \<Rightarrow> cpptype \<Rightarrow> cpptype \<Rightarrow> cpptype option" where
  "std_class_binop f E1 E2 =
     (let U = remove_reference E1; S = remove_cv (remove_reference E2) in
      if f = B_assign \<and> U \<noteq> Nonesuch \<and> is_class U \<and> \<not> is_const U \<and> std_class_conv S U
      then Some (LRef U) else None)"

definition unop :: "env \<Rightarrow> uop \<Rightarrow> cpptype \<Rightarrow> cpptype option" where
  "unop env f E =
     (if user_operand E then class_unop env f E
      else if class_operand E then None
      else builtin_unop f E)"

definition binop :: "env \<Rightarrow> bop \<Rightarrow> cpptype \<Rightarrow> cpptype \<Rightarrow> cpptype option" where
  "binop env f E1 E2 =
     (if user_operand E1 \<or> user_operand E2 then class_binop env f E1 E2
      else if class_operand E1 \<or> class_operand E2 then std_class_binop f E1 E2
      else builtin_binop env f E1 E2)"

subsection \<open>Type traits of the standard library\<close>

fun remove_all_extents :: "cpptype \<Rightarrow> cpptype" where
  "remove_all_extents (Arr T n) = remove_all_extents T"
| "remove_all_extents T = T"

text \<open>
  \<open>std::is_nothrow_destructible\<close>.  It is false for \<open>nonesuch\<close>, which declares
  \<open>~nonesuch() = delete\<close>.
\<close>

definition is_nothrow_destructible :: "env \<Rightarrow> cpptype \<Rightarrow> bool" where
  "is_nothrow_destructible env T =
     (if is_reference T then True
      else (let V = remove_cv (remove_all_extents T) in
            if is_void V then False
            else if is_user_class V then class_destructible env V
            else V \<noteq> Nonesuch))"

text \<open>
  \<open>std::is_constructible<T, Args...>\<close>; an argument type \<open>A\<close> stands for the expression
  \<open>std::declval<A>()\<close>.  All constructors of \<open>nonesuch\<close> are deleted.
\<close>

definition is_constructible :: "env \<Rightarrow> cpptype \<Rightarrow> cpptype list \<Rightarrow> bool" where
  "is_constructible env T Args =
     (let V = remove_cv T in
      if is_reference T then (case Args of [A] \<Rightarrow> is_convertible env A T | _ \<Rightarrow> False)
      else if is_void T then False
      else if is_user_class V then class_constructible env V Args
      else if is_class V then
        V \<noteq> Nonesuch \<and>
        (case Args of [] \<Rightarrow> True
         | [A] \<Rightarrow> std_class_conv (remove_cv (remove_reference A)) V
         | _ \<Rightarrow> False)
      else if is_array V then
        Args = [] \<and>
        (let E = remove_cv (remove_all_extents V) in
         if is_user_class E then class_constructible env E [] else E \<noteq> Nonesuch)
      else (case Args of [] \<Rightarrow> True | [A] \<Rightarrow> is_convertible env A V | _ \<Rightarrow> False))"

text \<open>\<open>std::is_assignable<T, U>\<close>: \<open>std::declval<T>() = std::declval<U>()\<close> is well-formed.\<close>

definition is_assignable :: "env \<Rightarrow> cpptype \<Rightarrow> cpptype \<Rightarrow> bool" where
  "is_assignable env T U = (binop env B_assign (rref T) (rref U) \<noteq> None)"

text \<open>
  \<open>swap(t, u)\<close> on two lvalues with \<open>using std::swap\<close> in scope.  For the types that are
  not the user's, only \<open>std::swap\<close> is found: it takes two lvalues of one type that is
  move constructible and move assignable, or two arrays of such a type.
\<close>

definition swap_t :: "env \<Rightarrow> cpptype \<Rightarrow> cpptype \<Rightarrow> cpptype option" where
  "swap_t env X Y =
     (if is_user_class (remove_all_extents X) \<or> is_user_class (remove_all_extents Y)
      then class_swap env X Y
      else (let E = remove_all_extents X in
            if X = Y \<and> is_constructible env E [E] \<and> is_assignable env (LRef E) E
            then Some Void else None))"

text \<open>
  \<open>std::result_of_t<F(Args...)>\<close>.  \<open>std::less<>\<close> and \<open>std::equal_to<>\<close> take two
  arguments and return what \<open><\<close> and \<open>==\<close> return on them, perfectly forwarded.  Function
  pointers are not among the types of the model.
\<close>

definition result_of :: "env \<Rightarrow> cpptype \<Rightarrow> cpptype list \<Rightarrow> cpptype option" where
  "result_of env F Args =
     (let C = remove_cv (remove_reference F) in
      if is_user_class C then class_result_of env F Args
      else if C = StdLess then (case Args of [A, B] \<Rightarrow> binop env B_lt A B | _ \<Rightarrow> None)
      else if C = StdEqualTo then (case Args of [A, B] \<Rightarrow> binop env B_eq A B | _ \<Rightarrow> None)
      else None)"

text \<open>\<open>std::iterator_traits<T>::iterator_category\<close>.\<close>

definition std_iterator_category :: "env \<Rightarrow> cpptype \<Rightarrow> cpptype option" where
  "std_iterator_category env T =
     (if is_user_class T then class_iterator_category env T
      else (case T of Ptr X \<Rightarrow> if is_object X then Some (Tag RandomAccess) else None
            | _ \<Rightarrow> None))"

subsection \<open>Members and free functions\<close>

text \<open>\<open>typename T::n\<close>: only a class has member types, and \<open>dangling\<close> declares none.\<close>

definition member_type_t :: "env \<Rightarrow> string \<Rightarrow> cpptype \<Rightarrow> cpptype option" where
  "member_type_t env n T =
     (case remove_cv T of Class c \<Rightarrow> member_type env n (Class c) | _ \<Rightarrow> None)"

text \<open>
  \<open>decltype(std::declval<T&>().f())\<close>.  \<open>dangling<X>\<close> has the one member function
  \<open>X get_unsafe()\<close>, which is not const.
\<close>

definition member_call :: "env \<Rightarrow> string \<Rightarrow> cpptype \<Rightarrow> cpptype option" where
  "member_call env f T =
     (let U = remove_reference T in
      case remove_cv U of
        Class c \<Rightarrow> member_fn env f U
      | Dangling X \<Rightarrow> if f = ''get_unsafe'' \<and> \<not> is_const U then Some X else None
      | _ \<Rightarrow> None)"

text \<open>
  Argument-dependent lookup looks into the namespaces of the classes that the argument type
  is built from, so it finds no function for a fundamental type or a pointer to one.
  (For an array of a class of namespace \<open>std\<close> it would find \<open>std::begin\<close> and \<open>std::end\<close>;
  the array overloads of the customization points are chosen before them in any case.)
\<close>

fun adl_associated :: "cpptype \<Rightarrow> bool" where
  "adl_associated (Class c) = True"
| "adl_associated (Dangling T) = True"
| "adl_associated (Ptr T) = adl_associated T"
| "adl_associated (Arr T n) = adl_associated T"
| "adl_associated (Const T) = adl_associated T"
| "adl_associated T = False"

definition free_call :: "env \<Rightarrow> string \<Rightarrow> cpptype \<Rightarrow> cpptype option" where
  "free_call env f T =
     (let U = remove_reference T in if adl_associated U then adl_fn env f U else None)"

section \<open>Requirement clauses\<close>

text \<open>
  The helpers of the requires-clause machinery.  \<open>fwd_deduce E\<close> is what \<open>Deduced\<close> is in a
  parameter \<open>Deduced&&\<close> bound to an expression of type \<open>E\<close>; \<open>lv_deduce E\<close> is what it is
  in a parameter \<open>Deduced&\<close>, which binds an lvalue, or an rvalue of const type.  A void
  expression is no argument.
\<close>

definition fwd_deduce :: "cpptype \<Rightarrow> cpptype" where
  "fwd_deduce E = (case E of LRef D \<Rightarrow> LRef D | _ \<Rightarrow> remove_reference E)"

definition lv_deduce :: "cpptype \<Rightarrow> cpptype option" where
  "lv_deduce E =
     (case E of LRef D \<Rightarrow> Some D
      | _ \<Rightarrow> if is_const (remove_reference E) then Some (remove_reference E) else None)"

definition same_rv :: "cpptype \<Rightarrow> cpptype \<Rightarrow> bool" where
  "same_rv T E = (\<not> is_void E \<and> Same T (fwd_deduce E))"

definition same_lv :: "cpptype \<Rightarrow> cpptype \<Rightarrow> bool" where
  "same_lv T E = (case lv_deduce E of None \<Rightarrow> False | Some D \<Rightarrow> Same T D)"

definition not_void :: "cpptype \<Rightarrow> bool" where
  "not_void E = (\<not> is_void E)"

text \<open>\<open>holds e P\<close>: the expression \<open>e\<close> is well-formed and its type satisfies \<open>P\<close>.\<close>

fun holds :: "cpptype option \<Rightarrow> (cpptype \<Rightarrow> bool) \<Rightarrow> bool" where
  "holds None P = False"
| "holds (Some E) P = P E"

text \<open>
  The expression naming a function parameter declared \<open>I i\<close>: an lvalue; a parameter of
  array type is a pointer, and there is no parameter of type void.
\<close>

definition by_value_param :: "cpptype \<Rightarrow> cpptype option" where
  "by_value_param I =
     (if is_void I then None
      else Some (case I of Arr E n \<Rightarrow> LRef (Ptr E) | _ \<Rightarrow> LRef (remove_reference I)))"

section \<open>Core, comparison and object concepts\<close>

definition DerivedFrom :: "env \<Rightarrow> cpptype \<Rightarrow> cpptype \<Rightarrow> bool" where
  "DerivedFrom env T U =
     (is_base_of env U T \<and> is_convertible env (Ptr (remove_cv T)) (Ptr (remove_cv U)))"

definition ConvertibleTo :: "env \<Rightarrow> cpptype \<Rightarrow> cpptype \<Rightarrow> bool" where
  "ConvertibleTo env From To = is_convertible env From To"

definition convertible_to_rv :: "env \<Rightarrow> cpptype \<Rightarrow> cpptype \<Rightarrow> bool" where
  "convertible_to_rv env T E = (\<not> is_void E \<and> ConvertibleTo env (fwd_deduce E) T)"

definition Integral :: "cpptype \<Rightarrow> bool" where
  "Integral I = is_integral I"

definition SignedIntegral :: "cpptype \<Rightarrow> bool" where
  "SignedIntegral I = (Integral I \<and> is_signed I)"

definition UnsignedIntegral :: "cpptype \<Rightarrow> bool" where
  "UnsignedIntegral I = (Integral I \<and> \<not> SignedIntegral I)"

definition Assignable :: "env \<Rightarrow> cpptype \<Rightarrow> cpptype \<Rightarrow> bool" where
  "Assignable env T U = is_assignable env T U"

text \<open>\<open>adl_swap(T& t, U& u)\<close> takes lvalues.\<close>

definition adl_swap_t :: "env \<Rightarrow> cpptype \<times> cpptype \<Rightarrow> cpptype option" where
  "adl_swap_t env = (\<lambda>(T, U).
     if is_lvalue_reference T \<and> is_lvalue_reference U
     then swap_t env (remove_reference T) (remove_reference U) else None)"

definition Swappable :: "env \<Rightarrow> cpptype \<Rightarrow> bool" where
  "Swappable env T = is_detected (adl_swap_t env) (lref T, lref T)"

definition SwappableWith :: "env \<Rightarrow> cpptype \<Rightarrow> cpptype \<Rightarrow> bool" where
  "SwappableWith env T U =
     (is_detected (adl_swap_t env) (lref T, lref U) \<and>
      is_detected (adl_swap_t env) (lref U, lref T))"

definition Destructible :: "env \<Rightarrow> cpptype \<Rightarrow> bool" where
  "Destructible env T = is_nothrow_destructible env T"

definition Constructible :: "env \<Rightarrow> cpptype \<Rightarrow> cpptype list \<Rightarrow> bool" where
  "Constructible env T Args = (Destructible env T \<and> is_constructible env T Args)"

definition DefaultConstructible :: "env \<Rightarrow> cpptype \<Rightarrow> bool" where
  "DefaultConstructible env T = Constructible env T []"

definition MoveConstructible :: "env \<Rightarrow> cpptype \<Rightarrow> bool" where
  "MoveConstructible env T = (Constructible env T [T] \<and> ConvertibleTo env T T)"

definition CopyConstructible :: "env \<Rightarrow> cpptype \<Rightarrow> bool" where
  "CopyConstructible env T =
     (MoveConstructible env T \<and>
      Constructible env T [lref T] \<and> ConvertibleTo env (lref T) T \<and>
      Constructible env T [lref (add_const T)] \<and> ConvertibleTo env (lref (add_const T)) T \<and>
      Constructible env T [add_const T] \<and> ConvertibleTo env (add_const T) T)"

definition Movable :: "env \<Rightarrow> cpptype \<Rightarrow> bool" where
  "Movable env T =
     (is_object T \<and> MoveConstructible env T \<and> Assignable env (lref T) T \<and> Swappable env T)"

text \<open>
  \<open>detail::Boolean_\<close>: \<open>b1\<close> and \<open>b2\<close> are lvalues of type
  \<open>const std::remove_reference_t<B>\<close>, \<open>a\<close> is an lvalue of type \<open>const bool\<close>.
\<close>

definition Boolean_requires :: "env \<Rightarrow> cpptype \<Rightarrow> bool" where
  "Boolean_requires env B =
     (\<not> is_void B \<and>
      (let b = LRef (add_const (remove_reference B)); a = LRef (Const Bool) in
       convertible_to_rv env Bool b \<and>
       holds (unop env Log_not b) (convertible_to_rv env Bool) \<and>
       holds (binop env B_and b a) (same_rv Bool) \<and>
       holds (binop env B_or b a) (same_rv Bool) \<and>
       holds (binop env B_and b b) (same_rv Bool) \<and>
       holds (binop env B_and a b) (same_rv Bool) \<and>
       holds (binop env B_or b b) (same_rv Bool) \<and>
       holds (binop env B_or a b) (same_rv Bool) \<and>
       holds (binop env B_eq b b) (convertible_to_rv env Bool) \<and>
       holds (binop env B_eq b a) (convertible_to_rv env Bool) \<and>
       holds (binop env B_eq a b) (convertible_to_rv env Bool) \<and>
       holds (binop env B_ne b b) (convertible_to_rv env Bool) \<and>
       holds (binop env B_ne b a) (convertible_to_rv env Bool) \<and>
       holds (binop env B_ne a b) (convertible_to_rv env Bool)))"

definition Boolean :: "env \<Rightarrow> cpptype \<Rightarrow> bool" where
  "Boolean env B =
     (Movable env (decay B) \<and> ConvertibleTo env B Bool \<and> Boolean_requires env B)"

definition boolean_rv :: "env \<Rightarrow> cpptype \<Rightarrow> bool" where
  "boolean_rv env E = (\<not> is_void E \<and> Boolean env (fwd_deduce E))"

definition WeaklyEqualityComparableWith_requires :: "env \<Rightarrow> cpptype \<Rightarrow> cpptype \<Rightarrow> bool" where
  "WeaklyEqualityComparableWith_requires env T U =
     (\<not> is_void T \<and> \<not> is_void U \<and>
      (let t = LRef (add_const (remove_reference T));
           u = LRef (add_const (remove_reference U)) in
       holds (binop env B_eq t u) (boolean_rv env) \<and>
       holds (binop env B_ne t u) (boolean_rv env) \<and>
       holds (binop env B_eq u t) (boolean_rv env) \<and>
       holds (binop env B_ne u t) (boolean_rv env)))"

definition WeaklyEqualityComparableWith :: "env \<Rightarrow> cpptype \<Rightarrow> cpptype \<Rightarrow> bool" where
  "WeaklyEqualityComparableWith env T U = WeaklyEqualityComparableWith_requires env T U"

definition EqualityComparable :: "env \<Rightarrow> cpptype \<Rightarrow> bool" where
  "EqualityComparable env T = WeaklyEqualityComparableWith env T T"

definition EqualityComparableWith :: "env \<Rightarrow> cpptype \<Rightarrow> cpptype \<Rightarrow> bool" where
  "EqualityComparableWith env T U =
     (EqualityComparable env T \<and> EqualityComparable env U \<and>
      WeaklyEqualityComparableWith env T U)"

definition StrictTotallyOrdered_requires :: "env \<Rightarrow> cpptype \<Rightarrow> bool" where
  "StrictTotallyOrdered_requires env T =
     (\<not> is_void T \<and>
      (let a = LRef (add_const (remove_reference T)) in
       holds (binop env B_lt a a) (boolean_rv env) \<and>
       holds (binop env B_gt a a) (boolean_rv env) \<and>
       holds (binop env B_le a a) (boolean_rv env) \<and>
       holds (binop env B_ge a a) (boolean_rv env)))"

definition StrictTotallyOrdered :: "env \<Rightarrow> cpptype \<Rightarrow> bool" where
  "StrictTotallyOrdered env T =
     (EqualityComparable env T \<and> StrictTotallyOrdered_requires env T)"

definition Copyable :: "env \<Rightarrow> cpptype \<Rightarrow> bool" where
  "Copyable env T =
     (CopyConstructible env T \<and> Movable env T \<and>
      Assignable env (lref T) (lref (add_const T)))"

definition Semiregular :: "env \<Rightarrow> cpptype \<Rightarrow> bool" where
  "Semiregular env T = (Copyable env T \<and> DefaultConstructible env T)"

definition Regular :: "env \<Rightarrow> cpptype \<Rightarrow> bool" where
  "Regular env T = (Semiregular env T \<and> EqualityComparable env T)"

section \<open>Callable concepts\<close>

text \<open>\<open>is_callable<F(Args...)>\<close> asks for \<open>std::result_of_t<F&&(Args&&...)>\<close>.\<close>

definition callable_result :: "env \<Rightarrow> cpptype \<times> cpptype list \<Rightarrow> cpptype option" where
  "callable_result env = (\<lambda>(F, Args). result_of env (rref F) (map rref Args))"

definition Callable :: "env \<Rightarrow> cpptype \<Rightarrow> cpptype list \<Rightarrow> bool" where
  "Callable env F Args = is_detected (callable_result env) (F, Args)"

definition RegularCallable :: "env \<Rightarrow> cpptype \<Rightarrow> cpptype list \<Rightarrow> bool" where
  "RegularCallable env F Args = Callable env F Args"

definition Predicate :: "env \<Rightarrow> cpptype \<Rightarrow> cpptype list \<Rightarrow> bool" where
  "Predicate env F Args =
     (Callable env F Args \<and> holds (callable_result env (F, Args)) (Boolean env))"

definition Relation :: "env \<Rightarrow> cpptype \<Rightarrow> cpptype \<Rightarrow> cpptype \<Rightarrow> bool" where
  "Relation env R T U =
     (Predicate env R [T, T] \<and> Predicate env R [U, U] \<and>
      Predicate env R [T, U] \<and> Predicate env R [U, T])"

definition StrictWeakOrder :: "env \<Rightarrow> cpptype \<Rightarrow> cpptype \<Rightarrow> cpptype \<Rightarrow> bool" where
  "StrictWeakOrder env R T U = Relation env R T U"

section \<open>Iterators: associated types\<close>

text \<open>
  \<open>difference_type<T>\<close>.  Its specialisations, in the order in which the more specialised
  one is taken: for a pointer \<open>T*\<close> (\<open>std::ptrdiff_t\<close> when \<open>T\<close> is an object type), for
  \<open>const I\<close> (that of \<open>std::decay_t<I>\<close>), for a type with a member \<open>difference_type\<close>,
  and for a non-pointer type without that member whose difference is integral (the signed
  type of the difference).  The primary template has no member \<open>type\<close>.
\<close>

definition difference_type_nc :: "env \<Rightarrow> cpptype \<Rightarrow> cpptype option" where
  "difference_type_nc env T =
     (case T of
        Ptr X \<Rightarrow> if is_object X then Some Long else None
      | _ \<Rightarrow>
        (case member_type_t env ''difference_type'' T of
           Some D \<Rightarrow> Some D
         | None \<Rightarrow>
             if is_void T \<or> is_pointer T then None
             else (case binop env B_sub (lref (add_const T)) (lref (add_const T)) of
                     None \<Rightarrow> None
                   | Some R \<Rightarrow>
                       if Integral R
                       then (case binop env B_sub (rref T) (rref T) of
                               None \<Rightarrow> None | Some R' \<Rightarrow> make_signed R')
                       else None)))"

definition difference_type :: "env \<Rightarrow> cpptype \<Rightarrow> cpptype option" where
  "difference_type env T =
     (case T of
        Const I \<Rightarrow> difference_type_nc env (decay I)
      | Arr E n \<Rightarrow> if is_const E then difference_type_nc env (decay (remove_cv T))
                   else difference_type_nc env T
      | _ \<Rightarrow> difference_type_nc env T)"

text \<open>
  \<open>value_type<T>\<close>: for a pointer, for an array (that of the decayed type), for \<open>const I\<close>
  (that of \<open>std::decay_t<I>\<close>), for a type with a member \<open>value_type\<close>, for a type with a
  member \<open>element_type\<close>.  Every candidate must be an object type.  A type with both
  members matches two specialisations of which none is more specialised: there the
  program is ill-formed, and the model gives no type.
\<close>

definition value_type_nc :: "env \<Rightarrow> cpptype \<Rightarrow> cpptype option" where
  "value_type_nc env T =
     (case T of
        Ptr X \<Rightarrow> if is_object X then Some (remove_cv X) else None
      | _ \<Rightarrow>
        (case (member_type_t env ''value_type'' T, member_type_t env ''element_type'' T) of
           (Some V, None) \<Rightarrow> if is_object V then Some V else None
         | (None, Some E) \<Rightarrow> if is_object E then Some (remove_cv E) else None
         | _ \<Rightarrow> None))"

definition value_type :: "env \<Rightarrow> cpptype \<Rightarrow> cpptype option" where
  "value_type env T =
     (case T of
        Const I \<Rightarrow> value_type_nc env (decay I)
      | Arr E n \<Rightarrow> value_type_nc env (decay T)
      | _ \<Rightarrow> value_type_nc env T)"

text \<open>
  \<open>iterator_category_t\<close>, \<open>reference_t\<close> and \<open>rvalue_reference_t\<close>; the last is the type
  of \<open>iter_move\<close>, which is \<open>std::move(*e)\<close>.
\<close>

definition iterator_category_t :: "env \<Rightarrow> cpptype \<Rightarrow> cpptype option" where
  "iterator_category_t env T = std_iterator_category env T"

definition reference_t :: "env \<Rightarrow> cpptype \<Rightarrow> cpptype option" where
  "reference_t env T = (if is_void T then None else unop env Deref (lref T))"

definition rvalue_reference_t :: "env \<Rightarrow> cpptype \<Rightarrow> cpptype option" where
  "rvalue_reference_t env T =
     (case reference_t env T of
        None \<Rightarrow> None
      | Some R \<Rightarrow> if is_void R then None else Some (RRef (remove_reference R)))"

section \<open>Iterator concepts\<close>

definition Readable :: "env \<Rightarrow> cpptype \<Rightarrow> bool" where
  "Readable env In =
     (is_detected (value_type env) In \<and> is_detected (reference_t env) In \<and>
      is_detected (rvalue_reference_t env) In)"

text \<open>
  \<open>const_cast<C>(e)\<close> to a reference type \<open>C\<close>: the types differ in cv only; an lvalue
  reference needs an lvalue, an rvalue reference a glvalue or a class prvalue.
\<close>

definition const_cast_ok :: "cpptype \<Rightarrow> cpptype \<Rightarrow> bool" where
  "const_cast_ok C E =
     (case C of
        LRef T \<Rightarrow> is_lvalue_reference E \<and> remove_cv T = remove_cv (remove_reference E)
      | RRef T \<Rightarrow> remove_cv T = remove_cv (remove_reference E) \<and> (is_reference E \<or> is_class E)
      | _ \<Rightarrow> False)"

text \<open>
  \<open>detail::Writable_\<close>, with parameters \<open>Out&& o\<close> (here \<open>out\<close>) and \<open>T&& t\<close>; \<open>std::forward<T>(t)\<close> has
  the expression type \<open>rref T\<close>.
\<close>

definition Writable_requires :: "env \<Rightarrow> cpptype \<Rightarrow> cpptype \<Rightarrow> bool" where
  "Writable_requires env Out T =
     (\<not> is_void Out \<and> \<not> is_void T \<and>
      (let out = LRef (remove_reference Out); t = rref T in
       case (unop env Deref out, reference_t env Out, unop env Deref (rref Out)) of
         (Some d, Some R, Some d') \<Rightarrow>
           (let C = rref (add_const R) in
            binop env B_assign d t \<noteq> None \<and>
            const_cast_ok C d \<and> binop env B_assign C t \<noteq> None \<and>
            const_cast_ok C d' \<and> binop env B_assign C t \<noteq> None)
       | _ \<Rightarrow> False))"

definition Writable :: "env \<Rightarrow> cpptype \<Rightarrow> cpptype \<Rightarrow> bool" where
  "Writable env Out T = Writable_requires env Out T"

definition WeaklyIncrementable_requires :: "env \<Rightarrow> cpptype \<Rightarrow> bool" where
  "WeaklyIncrementable_requires env I =
     (case (by_value_param I, difference_type env I) of
        (Some i, Some D) \<Rightarrow>
          is_constructible env D [] \<and> SignedIntegral D \<and>
          holds (unop env Pre_inc i) (same_lv I) \<and>
          unop env Post_inc i \<noteq> None
      | _ \<Rightarrow> False)"

definition WeaklyIncrementable :: "env \<Rightarrow> cpptype \<Rightarrow> bool" where
  "WeaklyIncrementable env I = (Semiregular env I \<and> WeaklyIncrementable_requires env I)"

definition Incrementable_requires :: "env \<Rightarrow> cpptype \<Rightarrow> bool" where
  "Incrementable_requires env I =
     (case by_value_param I of
        Some i \<Rightarrow> holds (unop env Post_inc i) (same_rv I)
      | None \<Rightarrow> False)"

definition Incrementable :: "env \<Rightarrow> cpptype \<Rightarrow> bool" where
  "Incrementable env I =
     (Regular env I \<and> WeaklyIncrementable env I \<and> Incrementable_requires env I)"

text \<open>
  \<open>detail::legacy_iterator_traits<T>\<close> is a class template, and naming its specialisation
  instantiates nothing: \<open>is_detected_v<legacy_iterator_traits, I>\<close> is true for every \<open>I\<close>.
\<close>

definition legacy_iterator_traits :: "cpptype \<Rightarrow> cpptype option" where
  "legacy_iterator_traits T = Some (Class ''legacy_iterator_traits'')"

definition Iterator_requires :: "env \<Rightarrow> cpptype \<Rightarrow> bool" where
  "Iterator_requires env I =
     (case by_value_param I of
        Some i \<Rightarrow> holds (unop env Deref i) not_void
      | None \<Rightarrow> False)"

definition Iterator :: "env \<Rightarrow> cpptype \<Rightarrow> bool" where
  "Iterator env I =
     (Iterator_requires env I \<and> WeaklyIncrementable env I \<and>
      is_detected legacy_iterator_traits I)"

definition Sentinel :: "env \<Rightarrow> cpptype \<Rightarrow> cpptype \<Rightarrow> bool" where
  "Sentinel env S I =
     (Semiregular env S \<and> Iterator env I \<and> WeaklyEqualityComparableWith env S I \<and>
      Same S I)"

definition disable_sized_sentinel :: "cpptype \<Rightarrow> cpptype \<Rightarrow> bool" where
  "disable_sized_sentinel S I = False"

text \<open>\<open>detail::SizedSentinel_\<close>, with parameters \<open>const I& i\<close> and \<open>const S& s\<close>.\<close>

definition SizedSentinel_requires :: "env \<Rightarrow> cpptype \<Rightarrow> cpptype \<Rightarrow> bool" where
  "SizedSentinel_requires env S I =
     (\<not> is_void S \<and> \<not> is_void I \<and>
      (let i = lref (add_const I); s = lref (add_const S) in
       case difference_type env I of
         Some D \<Rightarrow> holds (binop env B_sub s i) (same_rv D) \<and>
                   holds (binop env B_sub i s) (same_rv D)
       | None \<Rightarrow> False))"

definition SizedSentinel :: "env \<Rightarrow> cpptype \<Rightarrow> cpptype \<Rightarrow> bool" where
  "SizedSentinel env S I =
     (Sentinel env S I \<and> \<not> disable_sized_sentinel (remove_cv S) (remove_cv I) \<and>
      SizedSentinel_requires env S I)"

definition InputIterator :: "env \<Rightarrow> cpptype \<Rightarrow> bool" where
  "InputIterator env I =
     (Iterator env I \<and> Readable env I \<and>
      DerivedFrom env (detected_t (iterator_category_t env) I) (Tag Input))"

definition ForwardIterator :: "env \<Rightarrow> cpptype \<Rightarrow> bool" where
  "ForwardIterator env I =
     (InputIterator env I \<and>
      ConvertibleTo env (detected_t (iterator_category_t env) I) (Tag Forward) \<and>
      Incrementable env I \<and> Sentinel env I I)"

definition BidirectionalIterator_requires :: "env \<Rightarrow> cpptype \<Rightarrow> bool" where
  "BidirectionalIterator_requires env I =
     (case by_value_param I of
        Some i \<Rightarrow> holds (unop env Pre_dec i) (same_lv I) \<and>
                  holds (unop env Post_dec i) (same_rv I)
      | None \<Rightarrow> False)"

definition BidirectionalIterator :: "env \<Rightarrow> cpptype \<Rightarrow> bool" where
  "BidirectionalIterator env I =
     (ForwardIterator env I \<and>
      DerivedFrom env (detected_t (iterator_category_t env) I) (Tag Bidirectional) \<and>
      BidirectionalIterator_requires env I)"

text \<open>
  \<open>detail::RandomAccessIterator_\<close>, with parameters \<open>I i\<close>, \<open>const I j\<close> and
  \<open>const difference_type_t<I> n\<close>.
\<close>

definition RandomAccessIterator_requires :: "env \<Rightarrow> cpptype \<Rightarrow> bool" where
  "RandomAccessIterator_requires env I =
     (case (by_value_param I, by_value_param (add_const I), difference_type env I,
            reference_t env I) of
        (Some i, Some j, Some D, Some R) \<Rightarrow>
          (case by_value_param (add_const D) of
             Some n \<Rightarrow>
               holds (binop env B_add_assign i n) (same_lv I) \<and>
               holds (binop env B_add j n) (same_rv I) \<and>
               holds (binop env B_add n j) (same_rv I) \<and>
               holds (binop env B_sub_assign i n) (same_lv I) \<and>
               holds (binop env B_sub j n) (same_rv I) \<and>
               holds (binop env B_subscript j n) (\<lambda>E. Same E R)
           | None \<Rightarrow> False)
      | _ \<Rightarrow> False)"

definition RandomAccessIterator :: "env \<Rightarrow> cpptype \<Rightarrow> bool" where
  "RandomAccessIterator env I =
     (BidirectionalIterator env I \<and>
      DerivedFrom env (detected_t (iterator_category_t env) I) (Tag RandomAccess) \<and>
      StrictTotallyOrdered env I \<and> SizedSentinel env I I \<and>
      RandomAccessIterator_requires env I)"

section \<open>Indirect callable concepts and common algorithm requirements\<close>

text \<open>
  The concepts below name \<open>value_type_t<I>\<close>, \<open>reference_t<I>\<close> and
  \<open>rvalue_reference_t<I>\<close> in their operands.  Where one of them is ill-formed the C++
  program is ill-formed; the model gives \<open>False\<close> there, as the conjunct \<open>Readable<I>\<close> does.
\<close>

definition IndirectRelation :: "env \<Rightarrow> cpptype \<Rightarrow> cpptype \<Rightarrow> cpptype \<Rightarrow> bool" where
  "IndirectRelation env F I1 I2 =
     (Readable env I1 \<and> Readable env I2 \<and> CopyConstructible env F \<and>
      (case (value_type env I1, value_type env I2, reference_t env I1, reference_t env I2) of
         (Some V1, Some V2, Some R1, Some R2) \<Rightarrow>
           Relation env (lref F) (lref V1) (lref V2) \<and>
           Relation env (lref F) (lref V1) R2 \<and>
           Relation env (lref F) R1 (lref V2) \<and>
           Relation env (lref F) R1 R2
       | _ \<Rightarrow> False))"

definition IndirectStrictWeakOrder :: "env \<Rightarrow> cpptype \<Rightarrow> cpptype \<Rightarrow> cpptype \<Rightarrow> bool" where
  "IndirectStrictWeakOrder env F I1 I2 =
     (Readable env I1 \<and> Readable env I2 \<and> CopyConstructible env F \<and>
      (case (value_type env I1, value_type env I2, reference_t env I1, reference_t env I2) of
         (Some V1, Some V2, Some R1, Some R2) \<Rightarrow>
           StrictWeakOrder env (lref F) (lref V1) (lref V2) \<and>
           StrictWeakOrder env (lref F) (lref V1) R2 \<and>
           StrictWeakOrder env (lref F) R1 (lref V2) \<and>
           StrictWeakOrder env (lref F) R1 R2
       | _ \<Rightarrow> False))"

definition IndirectlyMovable :: "env \<Rightarrow> cpptype \<Rightarrow> cpptype \<Rightarrow> bool" where
  "IndirectlyMovable env In Out =
     (Readable env In \<and> holds (rvalue_reference_t env In) (Writable env Out))"

definition IndirectlyMovableStorable :: "env \<Rightarrow> cpptype \<Rightarrow> cpptype \<Rightarrow> bool" where
  "IndirectlyMovableStorable env In Out =
     (IndirectlyMovable env In Out \<and>
      (case (value_type env In, rvalue_reference_t env In) of
         (Some V, Some RR) \<Rightarrow>
           Writable env Out V \<and> Movable env V \<and> Constructible env V [RR] \<and>
           Assignable env (lref V) RR
       | _ \<Rightarrow> False))"

definition IndirectlySwappable :: "env \<Rightarrow> cpptype \<Rightarrow> cpptype \<Rightarrow> bool" where
  "IndirectlySwappable env I1 I2 = (Readable env I1 \<and> Readable env I2)"

definition IndirectlyComparable :: "env \<Rightarrow> cpptype \<Rightarrow> cpptype \<Rightarrow> cpptype \<Rightarrow> bool" where
  "IndirectlyComparable env I1 I2 R = IndirectRelation env R I1 I2"

definition Permutable :: "env \<Rightarrow> cpptype \<Rightarrow> bool" where
  "Permutable env I =
     (ForwardIterator env I \<and> IndirectlyMovableStorable env I I \<and>
      IndirectlySwappable env I I)"

definition Sortable :: "env \<Rightarrow> cpptype \<Rightarrow> cpptype \<Rightarrow> bool" where
  "Sortable env I R = (Permutable env I \<and> IndirectStrictWeakOrder env R I I)"

section \<open>Range access\<close>

text \<open>
  \<open>detail::decay_copy(x)\<close> has the type \<open>std::decay_t<decltype((x))>\<close> and is well-formed
  when that type can be made from the lvalue \<open>x\<close>.
\<close>

definition decay_copy_t :: "env \<Rightarrow> cpptype \<Rightarrow> cpptype option" where
  "decay_copy_t env E =
     (let U = remove_reference E; D = decay U in
      if \<not> is_void E \<and> is_constructible env D [LRef U] then Some D else None)"

text \<open>
  An argument of a call is an expression: its value category and its type, which is not a
  reference.  The four overloads of \<open>begin_cpo::operator()\<close> are the four forms.
\<close>

datatype value_category = Lvalue | Rvalue

datatype form = Array_form | Member_form | Free_form | Rvalue_form

text \<open>
  A parameter \<open>T&\<close> or \<open>T (&)[N]\<close> with \<open>T\<close> deduced binds an lvalue, and an rvalue of
  const type (then \<open>T\<close> is const).
\<close>

definition binds_lref :: "value_category \<Rightarrow> cpptype \<Rightarrow> bool" where
  "binds_lref cat X = (cat = Lvalue \<or> is_const X)"

subsection \<open>begin\<close>

definition member_begin_t :: "env \<Rightarrow> cpptype \<Rightarrow> cpptype option" where
  "member_begin_t env T = (if is_void T then None else member_call env ''begin'' T)"

definition has_member_begin_v :: "env \<Rightarrow> cpptype \<Rightarrow> bool" where
  "has_member_begin_v env T = Iterator env (detected_t (member_begin_t env) T)"

definition nonmember_begin_t :: "env \<Rightarrow> cpptype \<Rightarrow> cpptype option" where
  "nonmember_begin_t env T = (if is_void T then None else free_call env ''begin'' T)"

definition has_nonmember_begin_v :: "env \<Rightarrow> cpptype \<Rightarrow> bool" where
  "has_nonmember_begin_v env T = Iterator env (detected_t (nonmember_begin_t env) T)"

text \<open>
  The return type of each of the first three overloads, \<open>None\<close> when it is ill-formed:
  \<open>decltype((t) + 0)\<close>, \<open>decltype(decay_copy(t.begin()))\<close> and
  \<open>decltype(decay_copy(begin(t)))\<close>.
\<close>

definition begin_return_t :: "env \<Rightarrow> form \<Rightarrow> cpptype \<Rightarrow> cpptype option" where
  "begin_return_t env f X =
     (case f of
        Array_form \<Rightarrow> binop env B_add (LRef X) SInt
      | Member_form \<Rightarrow> Option.bind (member_begin_t env X) (decay_copy_t env)
      | Free_form \<Rightarrow> Option.bind (nonmember_begin_t env X) (decay_copy_t env)
      | Rvalue_form \<Rightarrow> None)"

text \<open>
  An overload is viable when its parameter binds the argument, its \<open>REQUIRES\<close> clause
  holds and its return type is well-formed.  The fourth overload takes \<open>const T&&\<close>,
  which binds rvalues only, and deduces \<open>T\<close> without \<open>const\<close>.
\<close>

definition begin_viable :: "env \<Rightarrow> value_category \<Rightarrow> cpptype \<Rightarrow> form \<Rightarrow> bool" where
  "begin_viable env cat X f =
     (case f of
        Array_form \<Rightarrow>
          binds_lref cat X \<and> is_array X \<and> begin_return_t env Array_form X \<noteq> None
      | Member_form \<Rightarrow>
          binds_lref cat X \<and> has_member_begin_v env X \<and>
          begin_return_t env Member_form X \<noteq> None
      | Free_form \<Rightarrow>
          binds_lref cat X \<and> (has_nonmember_begin_v env X \<and> \<not> has_member_begin_v env X) \<and>
          begin_return_t env Free_form X \<noteq> None
      | Rvalue_form \<Rightarrow>
          (let T = remove_cv X in
           cat = Rvalue \<and> \<not> is_array T \<and>
           (has_member_begin_v env (add_const T) \<or> has_nonmember_begin_v env (add_const T))))"

text \<open>
  Overload resolution among the viable overloads.  For an rvalue argument, binding the
  rvalue reference of the fourth overload is the better conversion.  The array overload is
  more specialised than the overloads taking \<open>T&\<close>.  Between the member and the free
  overload the language has no preference: were both viable, the call would be ambiguous.
\<close>

definition overload_select :: "(form \<Rightarrow> bool) \<Rightarrow> form option" where
  "overload_select v =
     (if v Rvalue_form then Some Rvalue_form
      else if v Array_form then Some Array_form
      else if v Member_form \<and> v Free_form then None
      else if v Member_form then Some Member_form
      else if v Free_form then Some Free_form
      else None)"

text \<open>
  \<open>nanorange::begin(e)\<close>: the overload taken and the type returned.  The fourth overload
  returns \<open>(*this)(static_cast<const T&>(t))\<close>, a call on an lvalue of type \<open>const T\<close>.
\<close>

definition begin_cpo :: "env \<Rightarrow> value_category \<Rightarrow> cpptype \<Rightarrow> (form \<times> cpptype) option" where
  "begin_cpo env cat X =
     (case overload_select (begin_viable env cat X) of
        None \<Rightarrow> None
      | Some Rvalue_form \<Rightarrow>
          (let C = add_const (remove_cv X) in
           case overload_select (begin_viable env Lvalue C) of
             None \<Rightarrow> None
           | Some f \<Rightarrow> map_option (Pair Rvalue_form) (begin_return_t env f C))
      | Some f \<Rightarrow> map_option (Pair f) (begin_return_t env f X))"

text \<open>\<open>iterator_t<Rng>\<close> is \<open>decltype(nanorange::begin(std::declval<Rng&>()))\<close>.\<close>

definition iterator_t :: "env \<Rightarrow> cpptype \<Rightarrow> cpptype option" where
  "iterator_t env Rng =
     (if is_void Rng then None
      else map_option snd (begin_cpo env Lvalue (remove_reference Rng)))"

subsection \<open>end\<close>

definition begin_t :: "env \<Rightarrow> cpptype \<Rightarrow> cpptype option" where
  "begin_t env T =
     (if is_void T then None
      else map_option snd (begin_cpo env Lvalue (remove_reference T)))"

definition member_end_t :: "env \<Rightarrow> cpptype \<Rightarrow> cpptype option" where
  "member_end_t env T = (if is_void T then None else member_call env ''end'' T)"

definition has_member_end_v :: "env \<Rightarrow> cpptype \<Rightarrow> bool" where
  "has_member_end_v env T =
     Sentinel env (detected_t (member_end_t env) T) (detected_t (begin_t env) T)"

definition nonmember_end_t :: "env \<Rightarrow> cpptype \<Rightarrow> cpptype option" where
  "nonmember_end_t env T = (if is_void T then None else free_call env ''end'' T)"

definition has_nonmember_end_v :: "env \<Rightarrow> cpptype \<Rightarrow> bool" where
  "has_nonmember_end_v env T =
     Sentinel env (detected_t (nonmember_end_t env) T) (detected_t (begin_t env) T)"

text \<open>
  \<open>decltype((t) + N)\<close> with \<open>N\<close> of type \<open>std::size_t\<close>, \<open>decltype(decay_copy(t.end()))\<close>
  and \<open>decltype(decay_copy(end(t)))\<close>.
\<close>

definition end_return_t :: "env \<Rightarrow> form \<Rightarrow> cpptype \<Rightarrow> cpptype option" where
  "end_return_t env f X =
     (case f of
        Array_form \<Rightarrow> binop env B_add (LRef X) ULong
      | Member_form \<Rightarrow> Option.bind (member_end_t env X) (decay_copy_t env)
      | Free_form \<Rightarrow> Option.bind (nonmember_end_t env X) (decay_copy_t env)
      | Rvalue_form \<Rightarrow> None)"

definition end_viable :: "env \<Rightarrow> value_category \<Rightarrow> cpptype \<Rightarrow> form \<Rightarrow> bool" where
  "end_viable env cat X f =
     (case f of
        Array_form \<Rightarrow>
          binds_lref cat X \<and> is_array X \<and> end_return_t env Array_form X \<noteq> None
      | Member_form \<Rightarrow>
          binds_lref cat X \<and> has_member_end_v env X \<and>
          end_return_t env Member_form X \<noteq> None
      | Free_form \<Rightarrow>
          binds_lref cat X \<and> (has_nonmember_end_v env X \<and> \<not> has_member_end_v env X) \<and>
          end_return_t env Free_form X \<noteq> None
      | Rvalue_form \<Rightarrow>
          (let T = remove_cv X in
           cat = Rvalue \<and> \<not> is_array T \<and>
           (has_member_end_v env (add_const T) \<or> has_nonmember_end_v env (add_const T))))"

definition end_cpo :: "env \<Rightarrow> value_category \<Rightarrow> cpptype \<Rightarrow> (form \<times> cpptype) option" where
  "end_cpo env cat X =
     (case overload_select (end_viable env cat X) of
        None \<Rightarrow> None
      | Some Rvalue_form \<Rightarrow>
          (let C = add_const (remove_cv X) in
           case overload_select (end_viable env Lvalue C) of
             None \<Rightarrow> None
           | Some f \<Rightarrow> map_option (Pair Rvalue_form) (end_return_t env f C))
      | Some f \<Rightarrow> map_option (Pair f) (end_return_t env f X))"

definition sentinel_t :: "env \<Rightarrow> cpptype \<Rightarrow> cpptype option" where
  "sentinel_t env Rng =
     (if is_void Rng then None
      else map_option snd (end_cpo env Lvalue (remove_reference Rng)))"

definition range_value_type_t :: "env \<Rightarrow> cpptype \<Rightarrow> cpptype option" where
  "range_value_type_t env Rng = Option.bind (iterator_t env Rng) (value_type env)"

section \<open>Range concepts\<close>

definition Range :: "env \<Rightarrow> cpptype \<Rightarrow> bool" where
  "Range env T =
     (Iterator env (detected_t (iterator_t env) T) \<and>
      Same (detected_t (iterator_t env) T) (detected_t (sentinel_t env) T))"

definition BoundedRange :: "env \<Rightarrow> cpptype \<Rightarrow> bool" where
  "BoundedRange env T = Range env T"

definition InputRange :: "env \<Rightarrow> cpptype \<Rightarrow> bool" where
  "InputRange env T = (Range env T \<and> InputIterator env (detected_t (iterator_t env) T))"

definition ForwardRange :: "env \<Rightarrow> cpptype \<Rightarrow> bool" where
  "ForwardRange env T = (Range env T \<and> ForwardIterator env (detected_t (iterator_t env) T))"

definition BidirectionalRange :: "env \<Rightarrow> cpptype \<Rightarrow> bool" where
  "BidirectionalRange env T =
     (Range env T \<and> BidirectionalIterator env (detected_t (iterator_t env) T))"

definition RandomAccessRange :: "env \<Rightarrow> cpptype \<Rightarrow> bool" where
  "RandomAccessRange env T =
     (Range env T \<and> RandomAccessIterator env (detected_t (iterator_t env) T))"

section \<open>Dangling iterators\<close>

text \<open>
  \<open>dangling<T>\<close> holds one value, its member \<open>value_\<close> (here \<open>dangling_value\<close>);
  \<open>dangling(T t)\<close> stores it and \<open>get_unsafe()\<close> returns
  it.  \<open>safe_iterator_t<Range>\<close> is a \<open>std::conditional_t\<close>, which names
  \<open>iterator_t<Range>\<close> in both branches.
\<close>

record 'a dangling =
  dangling_value :: 'a

definition dangling :: "'a \<Rightarrow> 'a dangling" where
  "dangling t = \<lparr> dangling_value = t \<rparr>"

definition get_unsafe :: "'a dangling \<Rightarrow> 'a" where
  "get_unsafe d = dangling_value d"

definition safe_iterator_t :: "env \<Rightarrow> cpptype \<Rightarrow> cpptype option" where
  "safe_iterator_t env Rng =
     (case iterator_t env Rng of
        None \<Rightarrow> None
      | Some I \<Rightarrow> Some (if is_lvalue_reference Rng then I else Dangling I))"

text \<open>
  The template argument deduced for a forwarding reference \<open>Range&& range\<close>: \<open>X&\<close> for an
  lvalue argument of type \<open>X\<close>, and \<open>X\<close> for an rvalue.
\<close>

definition deduce_forwarding :: "value_category \<Rightarrow> cpptype \<Rightarrow> cpptype" where
  "deduce_forwarding cat X = (case cat of Lvalue \<Rightarrow> LRef X | Rvalue \<Rightarrow> X)"

section \<open>Constraints of the algorithms\<close>

text \<open>
  The \<open>REQUIRES\<close> clause of each overload, as a predicate on its template arguments.  A
  clause that names an ill-formed type is a substitution failure: the overload is not
  viable.  A range overload declared with \<open>Range&& range\<close> is invocable on an argument
  when its clause holds for the deduced \<open>Range\<close>.
\<close>

definition is_permutation_iter_requires :: "env \<Rightarrow> cpptype \<Rightarrow> cpptype \<Rightarrow> cpptype \<Rightarrow> bool" where
  "is_permutation_iter_requires env ForwardIt1 ForwardIt2 Pred =
     (ForwardIterator env ForwardIt1 \<and> ForwardIterator env ForwardIt2 \<and>
      IndirectlyComparable env ForwardIt1 ForwardIt2 Pred)"

definition is_permutation_range_requires :: "env \<Rightarrow> cpptype \<Rightarrow> cpptype \<Rightarrow> cpptype \<Rightarrow> bool" where
  "is_permutation_range_requires env ForwardRng1 ForwardRng2 Pred =
     (ForwardRange env ForwardRng1 \<and> ForwardRange env ForwardRng2 \<and>
      (case (iterator_t env ForwardRng1, iterator_t env ForwardRng2) of
         (Some I1, Some I2) \<Rightarrow> IndirectlyComparable env I1 I2 Pred
       | _ \<Rightarrow> False))"

definition nth_element_iter_requires :: "env \<Rightarrow> cpptype \<Rightarrow> cpptype \<Rightarrow> bool" where
  "nth_element_iter_requires env Iter Comp =
     (RandomAccessIterator env Iter \<and> Sortable env Iter Comp)"

definition nth_element_range_requires :: "env \<Rightarrow> cpptype \<Rightarrow> cpptype \<Rightarrow> bool" where
  "nth_element_range_requires env Rng Comp =
     (RandomAccessRange env Rng \<and>
      (case iterator_t env Rng of Some I \<Rightarrow> Sortable env I Comp | None \<Rightarrow> False))"

definition next_permutation_iter_requires :: "env \<Rightarrow> cpptype \<Rightarrow> cpptype \<Rightarrow> bool" where
  "next_permutation_iter_requires env BidirIt Comp =
     (BidirectionalIterator env BidirIt \<and> Sortable env BidirIt Comp)"

text \<open>The clause of the range overload names \<open>iterator_t<iterator_t<BidirRng>>\<close>.\<close>

definition next_permutation_range_requires :: "env \<Rightarrow> cpptype \<Rightarrow> cpptype \<Rightarrow> bool" where
  "next_permutation_range_requires env BidirRng Comp =
     (BidirectionalRange env BidirRng \<and>
      (case Option.bind (iterator_t env BidirRng) (iterator_t env) of
         Some J \<Rightarrow> Sortable env J Comp
       | None \<Rightarrow> False))"

definition prev_permutation_range_requires :: "env \<Rightarrow> cpptype \<Rightarrow> cpptype \<Rightarrow> bool" where
  "prev_permutation_range_requires env BidirRng Comp =
     (BidirectionalRange env BidirRng \<and>
      (case iterator_t env BidirRng of Some I \<Rightarrow> Sortable env I Comp | None \<Rightarrow> False))"

definition next_permutation_range_invocable ::
  "env \<Rightarrow> value_category \<Rightarrow> cpptype \<Rightarrow> cpptype \<Rightarrow> bool" where
  "next_permutation_range_invocable env cat X Comp =
     next_permutation_range_requires env (deduce_forwarding cat X) Comp"

section \<open>Run time: pointers, arrays and ranges\<close>

text \<open>
  A pointer into an array is the array object, the number of its elements and an index
  from 0 to that number (one past the end).  Arithmetic that leaves this interval and the
  difference of pointers into two arrays are undefined: \<open>None\<close>.  An lvalue of type
  \<open>T[N]\<close> is the array object together with \<open>N\<close>.
\<close>

record ptr =
  ptr_obj :: nat
  ptr_len :: nat
  ptr_off :: nat

record array_ref =
  arr_obj :: nat
  arr_len :: nat

definition array_to_pointer :: "array_ref \<Rightarrow> ptr" where
  "array_to_pointer t = \<lparr> ptr_obj = arr_obj t, ptr_len = arr_len t, ptr_off = 0 \<rparr>"

definition ptr_add :: "ptr \<Rightarrow> nat \<Rightarrow> ptr option" where
  "ptr_add p n =
     (if ptr_off p + n \<le> ptr_len p then Some (p\<lparr> ptr_off := ptr_off p + n \<rparr>) else None)"

definition ptr_diff :: "ptr \<Rightarrow> ptr \<Rightarrow> int option" where
  "ptr_diff p q =
     (if ptr_obj p = ptr_obj q then Some (int (ptr_off p) - int (ptr_off q)) else None)"

text \<open>The array overloads of the two customization points: \<open>(t) + 0\<close> and \<open>(t) + N\<close>.\<close>

definition begin_array :: "array_ref \<Rightarrow> ptr option" where
  "begin_array t = ptr_add (array_to_pointer t) 0"

definition end_array :: "array_ref \<Rightarrow> ptr option" where
  "end_array t = ptr_add (array_to_pointer t) (arr_len t)"

text \<open>
  A range at run time is an array, or an object of a class whose \<open>begin()\<close> and \<open>end()\<close>
  return the two iterators it holds; the member overloads return a copy of them.
\<close>

datatype range_value = Array_range array_ref | Class_range ptr ptr

fun begin_value :: "range_value \<Rightarrow> ptr option" where
  "begin_value (Array_range t) = begin_array t"
| "begin_value (Class_range b e) = Some b"

fun end_value :: "range_value \<Rightarrow> ptr option" where
  "end_value (Array_range t) = end_array t"
| "end_value (Class_range b e) = Some e"

section \<open>Algorithms\<close>

text \<open>
  Each algorithm forwards to the algorithm of the standard library of the same name, which
  is a parameter \<open>std\<close> here; its result is \<open>None\<close> where the call is undefined.
  The parameters \<open>nth\<close>, \<open>last\<close>, \<open>comp\<close> and \<open>range\<close> of the source are \<open>nth_it\<close>,
  \<open>last_it\<close>, \<open>cmp\<close> and \<open>rng\<close>, and \<open>equal_of_ranges\<close> is the range
  overload of \<open>equal\<close>.
\<close>

definition is_permutation_iter ::
  "(ptr \<Rightarrow> ptr \<Rightarrow> ptr \<Rightarrow> ptr \<Rightarrow> 'p \<Rightarrow> 'r option) \<Rightarrow> ptr \<Rightarrow> ptr \<Rightarrow> ptr \<Rightarrow> ptr \<Rightarrow> 'p \<Rightarrow> 'r option" where
  "is_permutation_iter std first1 last1 first2 last2 pred = std first1 last1 first2 last2 pred"

definition is_permutation_range ::
  "(ptr \<Rightarrow> ptr \<Rightarrow> ptr \<Rightarrow> ptr \<Rightarrow> 'p \<Rightarrow> 'r option) \<Rightarrow> range_value \<Rightarrow> range_value \<Rightarrow> 'p \<Rightarrow> 'r option" where
  "is_permutation_range std range1 range2 pred =
     (case (begin_value range1, end_value range2, begin_value range2, end_value range2) of
        (Some a, Some b, Some c, Some d) \<Rightarrow> std a b c d pred
      | _ \<Rightarrow> None)"

definition equal_of_ranges ::
  "(ptr \<Rightarrow> ptr \<Rightarrow> ptr \<Rightarrow> ptr \<Rightarrow> 'p \<Rightarrow> 'r option) \<Rightarrow> range_value \<Rightarrow> range_value \<Rightarrow> 'p \<Rightarrow> 'r option" where
  "equal_of_ranges std range1 range2 pred =
     (case (begin_value range1, end_value range1, begin_value range2, end_value range2) of
        (Some a, Some b, Some c, Some d) \<Rightarrow> std a b c d pred
      | _ \<Rightarrow> None)"

definition nth_element_iter ::
  "(ptr \<Rightarrow> ptr \<Rightarrow> ptr \<Rightarrow> 'c \<Rightarrow> 'r option) \<Rightarrow> ptr \<Rightarrow> ptr \<Rightarrow> ptr \<Rightarrow> 'c \<Rightarrow> 'r option" where
  "nth_element_iter std first nth_it last_it cmp = std first nth_it last_it cmp"

definition nth_element_range ::
  "(ptr \<Rightarrow> ptr \<Rightarrow> ptr \<Rightarrow> 'c \<Rightarrow> 'r option) \<Rightarrow> range_value \<Rightarrow> ptr \<Rightarrow> 'c \<Rightarrow> 'r option" where
  "nth_element_range std rng nth_it cmp =
     (case (begin_value rng, end_value rng) of
        (Some a, Some b) \<Rightarrow> std a b nth_it cmp
      | _ \<Rightarrow> None)"

section \<open>The algorithms of the standard library on arrays of integers\<close>

text \<open>
  The memory is a list of arrays of integers; the object of a pointer is an index into it.
  \<open>[first, last)\<close> is a valid range when both pointers point into the same array of the
  memory and \<open>last\<close> is reachable from \<open>first\<close>.  The two algorithms follow their
  specification in the C++ standard: they are undefined on an invalid range;
  \<open>std::is_permutation\<close> compares, for every element of the first range, the number of
  elements equivalent to it in both ranges; \<open>std::nth_element\<close> may leave the range in
  any order that puts the element at \<open>nth\<close> in its sorted place, of which the model takes
  the sorted order, also where an implementation would do less.
\<close>

type_synonym heap = "int list list"

definition valid_range :: "heap \<Rightarrow> ptr \<Rightarrow> ptr \<Rightarrow> bool" where
  "valid_range h first last_it =
     (ptr_obj first = ptr_obj last_it \<and> ptr_obj first < length h \<and>
      ptr_len first = length (h ! ptr_obj first) \<and> ptr_len last_it = ptr_len first \<and>
      ptr_off first \<le> ptr_off last_it \<and> ptr_off last_it \<le> ptr_len last_it)"

definition elements :: "heap \<Rightarrow> ptr \<Rightarrow> ptr \<Rightarrow> int list" where
  "elements h first last_it =
     take (ptr_off last_it - ptr_off first) (drop (ptr_off first) (h ! ptr_obj first))"

definition std_is_permutation ::
  "heap \<Rightarrow> ptr \<Rightarrow> ptr \<Rightarrow> ptr \<Rightarrow> ptr \<Rightarrow> (int \<Rightarrow> int \<Rightarrow> bool) \<Rightarrow> bool option" where
  "std_is_permutation h first1 last1 first2 last2 pred =
     (if valid_range h first1 last1 \<and> valid_range h first2 last2
      then (let xs = elements h first1 last1; ys = elements h first2 last2 in
            Some (length xs = length ys \<and>
                  list_all (\<lambda>x. length (filter (pred x) xs) = length (filter (pred x) ys)) xs))
      else None)"

fun insert_by :: "(int \<Rightarrow> int \<Rightarrow> bool) \<Rightarrow> int \<Rightarrow> int list \<Rightarrow> int list" where
  "insert_by cmp x [] = [x]"
| "insert_by cmp x (y # ys) = (if cmp x y then x # y # ys else y # insert_by cmp x ys)"

definition sort_by :: "(int \<Rightarrow> int \<Rightarrow> bool) \<Rightarrow> int list \<Rightarrow> int list" where
  "sort_by cmp xs = foldr (insert_by cmp) xs []"

definition std_nth_element ::
  "heap \<Rightarrow> ptr \<Rightarrow> ptr \<Rightarrow> ptr \<Rightarrow> (int \<Rightarrow> int \<Rightarrow> bool) \<Rightarrow> heap option" where
  "std_nth_element h first nth_it last_it cmp =
     (if valid_range h first nth_it \<and> valid_range h nth_it last_it
      then (let a = h ! ptr_obj first in
            Some (h[ptr_obj first :=
                      take (ptr_off first) a @ sort_by cmp (elements h first last_it) @
                      drop (ptr_off last_it) a]))
      else None)"

section \<open>An example program\<close>

text \<open>
  The classes of a program that uses the library, for the concrete instances below:
  \<^item> \<open>Vec\<close> has members \<open>int* begin()\<close> and \<open>int* end()\<close>, with const overloads that return
    \<open>const int*\<close>, and its namespace has the free functions \<open>int* begin(Vec&)\<close> and
    \<open>int* end(Vec&)\<close>;
  \<^item> \<open>Mixed\<close> has members \<open>int* begin()\<close> and \<open>const int* end()\<close>;
  \<^item> \<open>Node\<close> has no members, and its namespace has the free function
    \<open>int* begin(Node*&)\<close>.
  No class has member types, operators, conversions, bases or accessible constructors
  that matter to the library.
\<close>

definition example_member_fn :: "string \<Rightarrow> cpptype \<Rightarrow> cpptype option" where
  "example_member_fn f T =
     (if T = Class ''Vec'' \<and> (f = ''begin'' \<or> f = ''end'') then Some (Ptr SInt)
      else if T = Const (Class ''Vec'') \<and> (f = ''begin'' \<or> f = ''end'')
        then Some (Ptr (Const SInt))
      else if T = Class ''Mixed'' \<and> f = ''begin'' then Some (Ptr SInt)
      else if T = Class ''Mixed'' \<and> f = ''end'' then Some (Ptr (Const SInt))
      else None)"

definition example_adl_fn :: "string \<Rightarrow> cpptype \<Rightarrow> cpptype option" where
  "example_adl_fn f T =
     (if T = Class ''Vec'' \<and> (f = ''begin'' \<or> f = ''end'') then Some (Ptr SInt)
      else if T = Ptr (Class ''Node'') \<and> f = ''begin'' then Some (Ptr SInt)
      else None)"

definition example_program :: env where
  "example_program =
     \<lparr> member_fn = example_member_fn,
       member_type = (\<lambda>n T. None),
       adl_fn = example_adl_fn,
       class_unop = (\<lambda>f E. None),
       class_binop = (\<lambda>f E1 E2. None),
       class_swap = (\<lambda>X Y. None),
       class_constructible = (\<lambda>T Args. False),
       class_destructible = (\<lambda>T. False),
       class_convertible = (\<lambda>From B. False),
       class_base_of = (\<lambda>B D. False),
       class_result_of = (\<lambda>F Args. None),
       class_iterator_category = (\<lambda>T. None) \<rparr>"

text \<open>
  A second program, with an iterator that is a class, after \<open>std::vector<bool>\<close>:
  \<^item> \<open>BitVec\<close> has members \<open>BitIterator begin()\<close> and \<open>BitIterator end()\<close>;
  \<^item> \<open>BitIterator\<close> has the member types \<open>value_type = bool\<close> and
    \<open>difference_type = std::ptrdiff_t\<close>, is default constructible, copyable, assignable
    and swappable, has \<open>==\<close> and \<open>!=\<close>, \<open>++\<close> in both forms, and an \<open>operator*\<close> that
    returns the proxy \<open>BitRef\<close> by value.
\<close>

definition bits_member_fn :: "string \<Rightarrow> cpptype \<Rightarrow> cpptype option" where
  "bits_member_fn f T =
     (if T = Class ''BitVec'' \<and> (f = ''begin'' \<or> f = ''end'')
      then Some (Class ''BitIterator'') else None)"

definition bits_member_type :: "string \<Rightarrow> cpptype \<Rightarrow> cpptype option" where
  "bits_member_type n T =
     (if T = Class ''BitIterator'' \<and> n = ''value_type'' then Some Bool
      else if T = Class ''BitIterator'' \<and> n = ''difference_type'' then Some Long
      else None)"

definition is_bit_iterator :: "cpptype \<Rightarrow> bool" where
  "is_bit_iterator E = (remove_cv (remove_reference E) = Class ''BitIterator'')"

definition bits_unop :: "uop \<Rightarrow> cpptype \<Rightarrow> cpptype option" where
  "bits_unop f E =
     (if f = Deref \<and> is_bit_iterator E then Some (Class ''BitRef'')
      else if f = Pre_inc \<and> E = LRef (Class ''BitIterator'')
        then Some (LRef (Class ''BitIterator''))
      else if f = Post_inc \<and> E = LRef (Class ''BitIterator'')
        then Some (Class ''BitIterator'')
      else None)"

definition bits_binop :: "bop \<Rightarrow> cpptype \<Rightarrow> cpptype \<Rightarrow> cpptype option" where
  "bits_binop f E1 E2 =
     (if f = B_assign \<and> E1 = LRef (Class ''BitIterator'') \<and> is_bit_iterator E2
        then Some (LRef (Class ''BitIterator''))
      else if (f = B_eq \<or> f = B_ne) \<and> is_bit_iterator E1 \<and> is_bit_iterator E2
        then Some Bool
      else None)"

definition bits_constructible :: "cpptype \<Rightarrow> cpptype list \<Rightarrow> bool" where
  "bits_constructible T Args =
     (T = Class ''BitIterator'' \<and>
      (case Args of [] \<Rightarrow> True | [A] \<Rightarrow> is_bit_iterator A | _ \<Rightarrow> False))"

definition bits_program :: env where
  "bits_program =
     \<lparr> member_fn = bits_member_fn,
       member_type = bits_member_type,
       adl_fn = (\<lambda>f T. None),
       class_unop = bits_unop,
       class_binop = bits_binop,
       class_swap = (\<lambda>X Y. if X = Class ''BitIterator'' \<and> Y = Class ''BitIterator''
                            then Some Void else None),
       class_constructible = bits_constructible,
       class_destructible = (\<lambda>T. T = Class ''BitIterator''),
       class_convertible = (\<lambda>From B. B = Class ''BitIterator'' \<and> is_bit_iterator From),
       class_base_of = (\<lambda>B D. False),
       class_result_of = (\<lambda>F Args. None),
       class_iterator_category = (\<lambda>T. None) \<rparr>"

section \<open>Unfolding the definitions\<close>

lemmas type_defs = lref_def is_object_def decay_def is_integral_def is_signed_def

lemmas expr_defs = user_operand_def class_operand_def is_scalar_def arith_conv_def
  steppable_def builtin_unop_def similar_ptr_def ptr_to_object_def builtin_compare_def
  builtin_logical_def tag_base_def is_base_of_def reference_related_def ref_compatible_def
  ptr_conv_def builtin_value_conv_def std_class_conv_def value_conv_def is_convertible_def
  builtin_additive_def builtin_compound_def builtin_subscript_def builtin_assign_def
  builtin_binop_def std_class_binop_def unop_def binop_def

lemmas trait_defs = is_nothrow_destructible_def is_constructible_def is_assignable_def
  swap_t_def result_of_def std_iterator_category_def member_type_t_def member_call_def
  free_call_def fwd_deduce_def lv_deduce_def same_rv_def same_lv_def not_void_def
  by_value_param_def

lemmas detect_defs = detector_def is_detected_def detected_t_def Same_def

lemmas concept_defs = DerivedFrom_def ConvertibleTo_def convertible_to_rv_def Integral_def
  SignedIntegral_def Assignable_def adl_swap_t_def Swappable_def Destructible_def
  Constructible_def DefaultConstructible_def MoveConstructible_def CopyConstructible_def
  Movable_def Boolean_requires_def Boolean_def boolean_rv_def
  WeaklyEqualityComparableWith_requires_def WeaklyEqualityComparableWith_def
  EqualityComparable_def StrictTotallyOrdered_requires_def StrictTotallyOrdered_def
  Copyable_def Semiregular_def Regular_def callable_result_def Callable_def Predicate_def
  Relation_def StrictWeakOrder_def

lemmas iter_defs = difference_type_nc_def difference_type_def value_type_nc_def
  value_type_def iterator_category_t_def reference_t_def rvalue_reference_t_def Readable_def
  const_cast_ok_def Writable_requires_def Writable_def WeaklyIncrementable_requires_def
  WeaklyIncrementable_def Incrementable_requires_def Incrementable_def
  legacy_iterator_traits_def Iterator_requires_def Iterator_def Sentinel_def
  disable_sized_sentinel_def SizedSentinel_requires_def SizedSentinel_def InputIterator_def
  ForwardIterator_def BidirectionalIterator_requires_def BidirectionalIterator_def
  RandomAccessIterator_requires_def RandomAccessIterator_def

lemmas algo_defs = IndirectRelation_def IndirectStrictWeakOrder_def IndirectlyMovable_def
  IndirectlyMovableStorable_def IndirectlySwappable_def IndirectlyComparable_def
  Permutable_def Sortable_def

section \<open>Built-in types\<close>

text \<open>
  The built-in types ask nothing of the environment.  \<open>int*\<close> is a random access
  iterator that \<open>std::less<>\<close> sorts, in every program.
\<close>

lemma pointer_to_int_random_access: "RandomAccessIterator env (Ptr SInt)"
  by (simp add: type_defs expr_defs trait_defs detect_defs concept_defs iter_defs)

lemma array_plus_integral:
  "is_object T \<Longrightarrow> is_arithmetic B \<Longrightarrow> binop env B_add (LRef (Arr T N)) B = Some (Ptr T)"
  by (cases B) (simp_all add: type_defs expr_defs)

lemma array_begin_cpo:
  "is_object T \<Longrightarrow> begin_cpo env Lvalue (Arr T N) = Some (Array_form, Ptr T)"
  by (simp add: begin_cpo_def overload_select_def begin_viable_def begin_return_t_def
      binds_lref_def array_plus_integral)

lemma array_end_cpo:
  "is_object T \<Longrightarrow> end_cpo env Lvalue (Arr T N) = Some (Array_form, Ptr T)"
  by (simp add: end_cpo_def overload_select_def end_viable_def end_return_t_def
      binds_lref_def array_plus_integral)

section \<open>The detection idiom: properties\<close>

lemma detected_cases:
  "(Op Args = None \<and> \<not> is_detected Op Args \<and> detected_t Op Args = Nonesuch) \<or>
   (\<exists>T. Op Args = Some T \<and> is_detected Op Args \<and> detected_t Op Args = T)"
  by (cases "Op Args") (simp_all add: is_detected_def detected_t_def detector_def)

text \<open>
  C6, as the code has it.  \<open>is_detected_exact<Expected, Op, Args...>\<close> compares
  \<open>Expected\<close> with \<open>detected_t<Op, Args...>\<close>, which is \<open>nonesuch\<close> when the detection
  fails.  So it is true exactly when the detection succeeds with the type \<open>Expected\<close>, or
  the detection fails and \<open>Expected\<close> is \<open>nonesuch\<close>; for every other \<open>Expected\<close> a failed
  detection makes it false.
\<close>

theorem is_detected_exact_iff:
  "is_detected_exact Expected Op Args \<longleftrightarrow>
     (is_detected Op Args \<and> Op Args = Some Expected) \<or>
     (\<not> is_detected Op Args \<and> Expected = Nonesuch)"
  by (cases "Op Args")
     (auto simp add: is_detected_exact_def Same_def is_detected_def detected_t_def detector_def)

theorem is_detected_exact_iff_witness:
  "is_detected_exact (Ptr SInt) (member_begin_t example_program) (Class ''Vec'') \<and>
   is_detected (member_begin_t example_program) (Class ''Vec'') \<and>
   \<not> is_detected_exact (Ptr SInt) (member_begin_t example_program) SInt \<and>
   \<not> is_detected (member_begin_t example_program) SInt"
  using is_detected_exact_iff [of "Ptr SInt" "member_begin_t example_program" "Class ''Vec''"]
    is_detected_exact_iff [of "Ptr SInt" "member_begin_t example_program" SInt]
  by (simp add: is_detected_def detector_def member_begin_t_def member_call_def
      example_program_def example_member_fn_def)

text \<open>
  C6 as stated fails: \<open>member_begin_t<int>\<close> is ill-formed, so its detection fails, and
  yet \<open>is_detected_exact<nonesuch, member_begin_t, int>\<close> is true.
\<close>

theorem is_detected_exact_counterexample:
  "\<not> is_detected (member_begin_t example_program) SInt \<and>
   is_detected_exact Nonesuch (member_begin_t example_program) SInt"
  by (simp add: is_detected_exact_def Same_def is_detected_def detected_t_def detector_def
      member_begin_t_def member_call_def)

section \<open>The iterator hierarchy\<close>

text \<open>
  C5.  A random access iterator is a bidirectional, forward and input iterator, an
  iterator and weakly incrementable, and every level of the hierarchy gives the level
  below it.
\<close>

theorem iterator_hierarchy:
  "(RandomAccessIterator env I \<longrightarrow>
      BidirectionalIterator env I \<and> ForwardIterator env I \<and> InputIterator env I \<and>
      Iterator env I \<and> WeaklyIncrementable env I) \<and>
   (BidirectionalIterator env I \<longrightarrow> ForwardIterator env I) \<and>
   (ForwardIterator env I \<longrightarrow> InputIterator env I) \<and>
   (InputIterator env I \<longrightarrow> Iterator env I) \<and>
   (Iterator env I \<longrightarrow> WeaklyIncrementable env I)"
  by (simp add: RandomAccessIterator_def BidirectionalIterator_def ForwardIterator_def
      InputIterator_def Iterator_def)


theorem iterator_hierarchy_witness:
  "RandomAccessIterator example_program (Ptr SInt) \<and>
   BidirectionalIterator example_program (Ptr SInt) \<and>
   ForwardIterator example_program (Ptr SInt) \<and>
   InputIterator example_program (Ptr SInt) \<and>
   Iterator example_program (Ptr SInt) \<and>
   WeaklyIncrementable example_program (Ptr SInt)"
  using iterator_hierarchy [of example_program "Ptr SInt"]
    pointer_to_int_random_access [of example_program]
  by simp

section \<open>Built-in arrays\<close>

text \<open>
  C2.  On an lvalue of type \<open>T[N]\<close> both customization points take their array overload
  and return a \<open>T*\<close>; \<open>begin\<close> returns the pointer to element 0, \<open>end\<close> the pointer to
  element \<open>N\<close>, and their difference is \<open>N\<close>.  The element type of an array is an object
  type.  This holds for every \<open>N\<close>, so for \<open>N > 0\<close>.
\<close>

theorem array_begin_end:
  assumes "is_object T" and "arr_len t = N"
  shows "begin_cpo env Lvalue (Arr T N) = Some (Array_form, Ptr T) \<and>
         end_cpo env Lvalue (Arr T N) = Some (Array_form, Ptr T) \<and>
         begin_array t = Some \<lparr> ptr_obj = arr_obj t, ptr_len = N, ptr_off = 0 \<rparr> \<and>
         end_array t = Some \<lparr> ptr_obj = arr_obj t, ptr_len = N, ptr_off = N \<rparr> \<and>
         ptr_diff \<lparr> ptr_obj = arr_obj t, ptr_len = N, ptr_off = N \<rparr>
                  \<lparr> ptr_obj = arr_obj t, ptr_len = N, ptr_off = 0 \<rparr> = Some (int N)"
  using assms
  by (simp add: array_begin_cpo array_end_cpo begin_array_def end_array_def ptr_add_def
      array_to_pointer_def ptr_diff_def)

theorem array_begin_end_witness:
  "is_object SInt \<and> arr_len \<lparr> arr_obj = 7, arr_len = 5 \<rparr> = 5 \<and>
   begin_cpo example_program Lvalue (Arr SInt 5) = Some (Array_form, Ptr SInt) \<and>
   end_cpo example_program Lvalue (Arr SInt 5) = Some (Array_form, Ptr SInt) \<and>
   begin_array \<lparr> arr_obj = 7, arr_len = 5 \<rparr> = Some \<lparr> ptr_obj = 7, ptr_len = 5, ptr_off = 0 \<rparr> \<and>
   end_array \<lparr> arr_obj = 7, arr_len = 5 \<rparr> = Some \<lparr> ptr_obj = 7, ptr_len = 5, ptr_off = 5 \<rparr> \<and>
   ptr_diff \<lparr> ptr_obj = 7, ptr_len = 5, ptr_off = 5 \<rparr> \<lparr> ptr_obj = 7, ptr_len = 5, ptr_off = 0 \<rparr>
     = Some 5"
  using array_begin_end [of SInt "\<lparr> arr_obj = 7, arr_len = 5 \<rparr>" 5 example_program]
  by (simp add: is_object_def)

section \<open>Dangling iterators: properties\<close>

text \<open>
  C7.  Let an algorithm declared with \<open>Range&& range\<close> be called on a range argument of
  type \<open>X\<close> whose iterator type is \<open>I\<close>.  For an lvalue argument \<open>safe_iterator_t<Range>\<close>
  is \<open>I\<close>; for an rvalue argument it is \<open>dangling<I>\<close>, whose member \<open>get_unsafe()\<close>
  returns an \<open>I\<close>: the iterator that the wrapper was made from.
\<close>

theorem safe_iterator_t_cases:
  assumes "\<not> is_reference X" and "iterator_t env X = Some I"
  shows "safe_iterator_t env (deduce_forwarding Lvalue X) = Some I \<and>
         safe_iterator_t env (deduce_forwarding Rvalue X) = Some (Dangling I) \<and>
         member_call env ''get_unsafe'' (Dangling I) = Some I \<and>
         get_unsafe (dangling it) = it"
proof -
  from assms(2) have nv: "\<not> is_void X"
    by (auto simp add: iterator_t_def split: if_splits)
  from assms(1) have nl: "\<not> is_lvalue_reference X"
    by (cases X) simp_all
  from assms(1) have rr: "remove_reference X = X"
    by (cases X) simp_all
  from assms(2) nv rr have "iterator_t env (LRef X) = Some I"
    by (simp add: iterator_t_def)
  with assms(2) nl show ?thesis
    by (simp add: safe_iterator_t_def deduce_forwarding_def member_call_def get_unsafe_def
        dangling_def)
qed

theorem safe_iterator_t_cases_witness:
  "\<not> is_reference (Class ''Vec'') \<and>
   iterator_t example_program (Class ''Vec'') = Some (Ptr SInt) \<and>
   safe_iterator_t example_program (deduce_forwarding Lvalue (Class ''Vec'')) = Some (Ptr SInt) \<and>
   safe_iterator_t example_program (deduce_forwarding Rvalue (Class ''Vec''))
     = Some (Dangling (Ptr SInt)) \<and>
   member_call example_program ''get_unsafe'' (Dangling (Ptr SInt)) = Some (Ptr SInt) \<and>
   get_unsafe (dangling \<lparr> ptr_obj = 0, ptr_len = 3, ptr_off = 1 \<rparr>)
     = \<lparr> ptr_obj = 0, ptr_len = 3, ptr_off = 1 \<rparr>"
proof -
  have it: "iterator_t example_program (Class ''Vec'') = Some (Ptr SInt)"
    by code_simp
  show ?thesis
    using safe_iterator_t_cases [of "Class ''Vec''" example_program "Ptr SInt"
        "\<lparr> ptr_obj = 0, ptr_len = 3, ptr_off = 1 \<rparr>"] it
    by simp
qed

section \<open>Priority of the member form\<close>

text \<open>
  What satisfies \<open>Iterator\<close> is copy constructible, so \<open>decay_copy\<close> of it is
  well-formed; \<open>nonesuch\<close> does not satisfy it, so a \<open>has_member_begin_v\<close> that holds
  has detected a member \<open>begin()\<close>.
\<close>

lemma remove_cv_idem: "remove_cv (remove_cv T) = remove_cv T"
  by (induction T) simp_all

lemma is_void_remove_cv: "is_void (remove_cv T) = is_void T"
  by (induction T) simp_all

lemma Iterator_Nonesuch: "\<not> Iterator env Nonesuch"
  by (simp add: type_defs expr_defs trait_defs detect_defs concept_defs iter_defs)

lemma Iterator_copyable:
  "Iterator env E \<Longrightarrow> is_object E \<and> is_constructible env E [lref E]"
  by (simp add: Iterator_def WeaklyIncrementable_def Semiregular_def Copyable_def
      CopyConstructible_def Movable_def Constructible_def)

lemma is_constructible_remove_cv:
  assumes "\<not> is_reference T" and "is_constructible env T [A]"
  shows "is_constructible env (remove_cv T) [A]"
proof -
  from assms have nv: "\<not> is_void T"
    by (auto simp add: is_constructible_def Let_def split: if_splits)
  show ?thesis
  proof (cases "is_reference (remove_cv T)")
    case True
    then have "\<not> is_user_class (remove_cv T)" "\<not> is_class (remove_cv T)"
      "\<not> is_array (remove_cv T)"
      by (cases "remove_cv T"; simp)+
    with assms nv True show ?thesis
      by (simp add: is_constructible_def Let_def remove_cv_idem)
  next
    case False
    with assms nv show ?thesis
      by (simp add: is_constructible_def Let_def remove_cv_idem is_void_remove_cv)
  qed
qed

lemma not_constructible_array: "\<not> is_constructible env (Arr X n) [A]"
  by (simp add: is_constructible_def Let_def)

lemma Iterator_decay_copy:
  assumes "Iterator env E"
  shows "decay_copy_t env E = Some (decay E)"
proof -
  from assms have ob: "is_object E" and co: "is_constructible env E [lref E]"
    using Iterator_copyable by blast+
  from ob have nr: "\<not> is_reference E" and nv: "\<not> is_void E"
    by (simp_all add: is_object_def)
  from nr have rr: "remove_reference E = E" by (cases E) simp_all
  from co rr have co': "is_constructible env E [LRef E]" by (simp add: lref_def)
  from co' have na: "\<not> is_array E"
    by (cases E) (simp_all add: not_constructible_array)
  then have de: "decay E = remove_cv E"
    using rr by (cases E) (simp_all add: decay_def)
  from nr co' have "is_constructible env (remove_cv E) [LRef E]"
    by (rule is_constructible_remove_cv)
  with nv rr de show ?thesis
    by (simp add: decay_copy_t_def Let_def)
qed

lemma member_call_not_array: "member_call env f T = Some E \<Longrightarrow> \<not> is_array T"
  by (cases T) (simp_all add: member_call_def)

lemma has_member_begin_vD:
  assumes "has_member_begin_v env T"
  obtains E where "member_begin_t env T = Some E" and "Iterator env E"
    and "detected_t (member_begin_t env) T = E"
  using assms detected_cases [of "member_begin_t env" T] Iterator_Nonesuch [of env]
  by (auto simp add: has_member_begin_v_def)

text \<open>
  C1.  Let the type of an lvalue argument have a member \<open>begin()\<close> and a free \<open>begin\<close>
  found by argument-dependent lookup, both returning what satisfies \<open>Iterator\<close>.  Then
  the call of the \<open>begin\<close> customization point is well-formed, takes the member overload
  and returns the decayed type of \<open>t.begin()\<close>; the free overload is not viable.  The
  overload resolution of the model has no preference between the two overloads: the
  priority comes from the constraint \<open>!has_member_begin_v<T>\<close> of the free overload.
\<close>

theorem begin_prefers_member:
  assumes "has_member_begin_v env T" and "has_nonmember_begin_v env T"
  shows "begin_cpo env Lvalue T
           = Some (Member_form, decay (detected_t (member_begin_t env) T)) \<and>
         \<not> begin_viable env Lvalue T Free_form"
proof -
  from assms(1) obtain E where mb: "member_begin_t env T = Some E" and it: "Iterator env E"
    and dt: "detected_t (member_begin_t env) T = E"
    by (rule has_member_begin_vD)
  from mb have na: "\<not> is_array T"
    by (auto simp add: member_begin_t_def dest: member_call_not_array split: if_splits)
  from it have dc: "decay_copy_t env E = Some (decay E)"
    by (rule Iterator_decay_copy)
  from mb dc have rt: "begin_return_t env Member_form T = Some (decay E)"
    by (simp add: begin_return_t_def)
  from assms(1) rt have vm: "begin_viable env Lvalue T Member_form"
    by (simp add: begin_viable_def binds_lref_def)
  from assms(1) have vf: "\<not> begin_viable env Lvalue T Free_form"
    by (simp add: begin_viable_def)
  from na have va: "\<not> begin_viable env Lvalue T Array_form"
    by (simp add: begin_viable_def)
  have vr: "\<not> begin_viable env Lvalue T Rvalue_form"
    by (simp add: begin_viable_def)
  from vm vf va vr have "overload_select (begin_viable env Lvalue T) = Some Member_form"
    by (simp add: overload_select_def)
  with rt dt vf show ?thesis
    by (simp add: begin_cpo_def)
qed

theorem begin_prefers_member_witness:
  "has_member_begin_v example_program (Class ''Vec'') \<and>
   has_nonmember_begin_v example_program (Class ''Vec'') \<and>
   begin_cpo example_program Lvalue (Class ''Vec'') = Some (Member_form, Ptr SInt) \<and>
   \<not> begin_viable example_program Lvalue (Class ''Vec'') Free_form"
proof -
  have m: "has_member_begin_v example_program (Class ''Vec'')" by code_simp
  have n: "has_nonmember_begin_v example_program (Class ''Vec'')" by code_simp
  have d: "decay (detected_t (member_begin_t example_program) (Class ''Vec'')) = Ptr SInt"
    by code_simp
  show ?thesis
    using begin_prefers_member [OF m n] m n d by simp
qed

section \<open>The Range concept\<close>

text \<open>
  Both the member and the free overload of \<open>end\<close> ask for \<open>Sentinel\<close>, which asks for
  \<open>Same\<close>: where the type returned by the member \<open>end()\<close> and the type returned by the
  free \<open>end\<close> both differ from the iterator type, \<open>end\<close> cannot be called.
\<close>

lemma detected_t_None: "Op Args = None \<Longrightarrow> detected_t Op Args = Nonesuch"
  by (simp add: detected_t_def detector_def)

lemma detected_t_Some: "Op Args = Some T \<Longrightarrow> detected_t Op Args = T"
  by (simp add: detected_t_def detector_def)

lemma no_end_without_same_type:
  assumes "\<not> is_array X"
    and "detected_t (member_end_t env) X \<noteq> detected_t (begin_t env) X"
    and "detected_t (nonmember_end_t env) X \<noteq> detected_t (begin_t env) X"
  shows "end_cpo env Lvalue X = None"
proof -
  from assms(2) have m: "\<not> has_member_end_v env X"
    by (simp add: has_member_end_v_def Sentinel_def Same_def)
  from assms(3) have n: "\<not> has_nonmember_end_v env X"
    by (simp add: has_nonmember_end_v_def Sentinel_def Same_def)
  from assms(1) m n have "overload_select (end_viable env Lvalue X) = None"
    by (simp add: overload_select_def end_viable_def)
  then show ?thesis
    by (simp add: end_cpo_def)
qed

text \<open>
  C4.  \<open>Range<T>\<close> holds exactly when the detected result type of \<open>begin\<close> on an
  lvalue of \<open>T\<close> satisfies \<open>Iterator\<close> and equals the detected result type of \<open>end\<close>.
  In particular, a type, not an array, whose \<open>end()\<close> (member and free) returns another
  type than \<open>begin\<close> does, a sentinel type, has no \<open>sentinel_t\<close> and is no \<open>Range\<close>.
\<close>

theorem Range_same_type:
  "(Range env T \<longleftrightarrow>
      Iterator env (detected_t (iterator_t env) T) \<and>
      detected_t (iterator_t env) T = detected_t (sentinel_t env) T) \<and>
   (\<not> is_array (remove_reference T) \<and>
    detected_t (member_end_t env) (remove_reference T)
      \<noteq> detected_t (begin_t env) (remove_reference T) \<and>
    detected_t (nonmember_end_t env) (remove_reference T)
      \<noteq> detected_t (begin_t env) (remove_reference T)
    \<longrightarrow> sentinel_t env T = None \<and> \<not> Range env T)"
proof (intro conjI impI)
  show "Range env T \<longleftrightarrow>
      Iterator env (detected_t (iterator_t env) T) \<and>
      detected_t (iterator_t env) T = detected_t (sentinel_t env) T"
    by (simp add: Range_def Same_def)
next
  assume h: "\<not> is_array (remove_reference T) \<and>
    detected_t (member_end_t env) (remove_reference T)
      \<noteq> detected_t (begin_t env) (remove_reference T) \<and>
    detected_t (nonmember_end_t env) (remove_reference T)
      \<noteq> detected_t (begin_t env) (remove_reference T)"
  then have "end_cpo env Lvalue (remove_reference T) = None"
    by (simp add: no_end_without_same_type)
  then show s: "sentinel_t env T = None"
    by (simp add: sentinel_t_def)
  show "\<not> Range env T"
  proof
    assume "Range env T"
    with s have "Iterator env Nonesuch"
      by (auto simp add: Range_def Same_def detected_t_None)
    then show False
      by (simp add: Iterator_Nonesuch)
  qed
qed

theorem Range_same_type_witness:
  "Range example_program (Arr SInt 5) \<and>
   detected_t (iterator_t example_program) (Arr SInt 5) = Ptr SInt \<and>
   detected_t (sentinel_t example_program) (Arr SInt 5) = Ptr SInt \<and>
   \<not> is_array (remove_reference (Class ''Mixed'')) \<and>
   detected_t (begin_t example_program) (remove_reference (Class ''Mixed'')) = Ptr SInt \<and>
   detected_t (member_end_t example_program) (remove_reference (Class ''Mixed''))
     = Ptr (Const SInt) \<and>
   detected_t (nonmember_end_t example_program) (remove_reference (Class ''Mixed'')) = Nonesuch \<and>
   sentinel_t example_program (Class ''Mixed'') = None \<and>
   \<not> Range example_program (Class ''Mixed'')"
proof -
  have a: "detected_t (iterator_t example_program) (Arr SInt 5) = Ptr SInt"
    by (simp add: iterator_t_def array_begin_cpo is_object_def detected_t_Some)
  have b: "detected_t (sentinel_t example_program) (Arr SInt 5) = Ptr SInt"
    by (simp add: sentinel_t_def array_end_cpo is_object_def detected_t_Some)
  have c: "Iterator example_program (Ptr SInt)"
    using pointer_to_int_random_access [of example_program]
    by (simp add: RandomAccessIterator_def BidirectionalIterator_def ForwardIterator_def
        InputIterator_def)
  have d: "detected_t (begin_t example_program) (Class ''Mixed'') = Ptr SInt"
    by code_simp
  have e: "detected_t (member_end_t example_program) (Class ''Mixed'') = Ptr (Const SInt)"
    by code_simp
  have f: "detected_t (nonmember_end_t example_program) (Class ''Mixed'') = Nonesuch"
    by code_simp
  have g: "Range example_program (Arr SInt 5)"
    using Range_same_type [of example_program "Arr SInt 5", THEN conjunct1] a b c
    by simp
  have h: "sentinel_t example_program (Class ''Mixed'') = None \<and>
           \<not> Range example_program (Class ''Mixed'')"
    using Range_same_type [of example_program "Class ''Mixed''", THEN conjunct2] d e f
    by simp
  show ?thesis
    using a b d e f g h by simp
qed

section \<open>Value type and dereference type\<close>

lemma pointer_associated_types:
  assumes "is_object T"
  shows "value_type env (Ptr T) = Some (remove_cv T)"
    and "reference_t env (decay (Ptr T)) = Some (LRef T)"
  using assms
  by (simp_all add: value_type_def value_type_nc_def reference_t_def unop_def builtin_unop_def
      type_defs user_operand_def class_operand_def)

text \<open>
  A pointer type that \<open>begin\<close> returns points to an object type: the array overload
  adds to a pointer to the elements, and the other overloads return the decayed type of
  what satisfies \<open>Iterator\<close>, which has a difference type.
\<close>

lemma remove_cv_pointer: "remove_cv I = Ptr T \<Longrightarrow> remove_reference I = I \<and> \<not> is_array I"
  by (cases I) simp_all

lemma Iterator_difference_type: "Iterator env E \<Longrightarrow> \<exists>D. difference_type env E = Some D"
  by (auto simp add: Iterator_def WeaklyIncrementable_def WeaklyIncrementable_requires_def
      split: option.splits)

lemma Iterator_pointer_object:
  assumes "Iterator env E" and "decay E = Ptr T"
  shows "is_object T"
proof -
  from assms(1) have ob: "is_object E" and co: "is_constructible env E [lref E]"
    using Iterator_copyable by blast+
  from ob have rr: "remove_reference E = E"
    by (cases E) (simp_all add: is_object_def)
  from co rr have na: "\<not> is_array E"
    by (cases E) (simp_all add: not_constructible_array lref_def)
  with assms(2) rr have rc: "remove_cv E = Ptr T"
    by (cases E) (simp_all add: decay_def)
  from assms(1) obtain D where d: "difference_type env E = Some D"
    using Iterator_difference_type by blast
  show ?thesis
  proof (cases E)
    case (Ptr X)
    with rc d show ?thesis
      by (simp add: difference_type_def difference_type_nc_def split: if_splits)
  next
    case (Const I)
    with rc have "remove_cv I = Ptr T" by simp
    then have "decay I = Ptr T"
      using remove_cv_pointer [of I T] by (cases I) (simp_all add: decay_def)
    with Const d show ?thesis
      by (simp add: difference_type_def difference_type_nc_def split: if_splits)
  qed (use rc in simp_all)
qed

lemma array_form_pointer_object:
  assumes "is_array X" and "binop env B_add (LRef X) SInt = Some (Ptr T)"
  shows "is_object T"
  using assms
  by (cases X) (auto simp add: type_defs expr_defs Let_def split: if_splits)

lemma has_nonmember_begin_vD:
  assumes "has_nonmember_begin_v env T"
  obtains E where "nonmember_begin_t env T = Some E" and "Iterator env E"
  using assms detected_cases [of "nonmember_begin_t env" T] Iterator_Nonesuch [of env]
  by (auto simp add: has_nonmember_begin_v_def)

lemma begin_lvalue_pointer_object:
  assumes "begin_cpo env Lvalue X = Some (f, Ptr T)"
  shows "is_object T"
proof -
  from assms obtain g where sel: "overload_select (begin_viable env Lvalue X) = Some g"
    by (auto simp add: begin_cpo_def split: option.splits)
  then have v: "begin_viable env Lvalue X g"
    by (auto simp add: overload_select_def split: if_splits)
  then have nr: "g \<noteq> Rvalue_form"
    by (auto simp add: begin_viable_def)
  with assms sel have rt: "begin_return_t env g X = Some (Ptr T)"
    by (cases g) (auto simp add: begin_cpo_def)
  show ?thesis
  proof (cases g)
    case Array_form
    with v rt show ?thesis
      by (auto simp add: begin_viable_def begin_return_t_def intro: array_form_pointer_object)
  next
    case Member_form
    with v have "has_member_begin_v env X" by (simp add: begin_viable_def)
    then obtain E where mb: "member_begin_t env X = Some E" and it: "Iterator env E"
      by (rule has_member_begin_vD)
    from Member_form rt mb it have "decay E = Ptr T"
      by (simp add: begin_return_t_def Iterator_decay_copy)
    with it show ?thesis by (rule Iterator_pointer_object)
  next
    case Free_form
    with v have "has_nonmember_begin_v env X" by (simp add: begin_viable_def)
    then obtain E where mb: "nonmember_begin_t env X = Some E" and it: "Iterator env E"
      by (rule has_nonmember_begin_vD)
    from Free_form rt mb it have "decay E = Ptr T"
      by (simp add: begin_return_t_def Iterator_decay_copy)
    with it show ?thesis by (rule Iterator_pointer_object)
  next
    case Rvalue_form
    with nr show ?thesis by simp
  qed
qed

lemma iterator_t_pointer_object:
  assumes "iterator_t env R = Some (Ptr T)"
  shows "is_object T"
  using assms
  by (auto simp add: iterator_t_def split: if_splits dest: begin_lvalue_pointer_object)

text \<open>
  C9, as the code has it.  For a range whose iterator type is a pointer \<open>T*\<close>, as for
  every built-in array, \<open>T\<close> is an object type, \<open>value_type_t\<close> of the iterator is
  \<open>std::remove_cv_t<T>\<close>, and dereferencing an instance of the decayed iterator type
  gives \<open>T&\<close>: the value type is the dereference type without its reference and its
  cv-qualifiers.
\<close>

theorem value_type_of_pointer:
  assumes "iterator_t env R = Some (Ptr T)"
  shows "is_object T \<and>
         value_type env (Ptr T) = Some (remove_cv T) \<and>
         reference_t env (decay (Ptr T)) = Some (LRef T) \<and>
         value_type env (Ptr T)
           = map_option (\<lambda>E. remove_cv (remove_reference E)) (reference_t env (decay (Ptr T)))"
proof -
  from assms have "is_object T"
    by (rule iterator_t_pointer_object)
  then show ?thesis
    by (simp add: pointer_associated_types)
qed

theorem value_type_of_pointer_witness:
  "iterator_t example_program (Arr SInt 5) = Some (Ptr SInt) \<and>
   iterator_t example_program (Class ''Vec'') = Some (Ptr SInt) \<and>
   is_object SInt \<and>
   value_type example_program (Ptr SInt) = Some SInt \<and>
   reference_t example_program (decay (Ptr SInt)) = Some (LRef SInt)"
proof -
  have a: "iterator_t example_program (Arr SInt 5) = Some (Ptr SInt)"
    by (simp add: iterator_t_def array_begin_cpo is_object_def)
  have b: "iterator_t example_program (Class ''Vec'') = Some (Ptr SInt)"
    by code_simp
  show ?thesis
    using value_type_of_pointer [OF a] a b by simp
qed

text \<open>
  C9 as stated fails, in two ways.  The iterator type of \<open>const int[5]\<close> is
  \<open>const int*\<close>, whose value type is \<open>int\<close>; dereferencing it gives \<open>const int&\<close>,
  which differs from \<open>int\<close> also when the reference is dropped.  And \<open>BitVec\<close> is a
  range whose iterator type \<open>BitIterator\<close> is a class: its value type is its member
  \<open>value_type\<close>, \<open>bool\<close>, while dereferencing it gives a \<open>BitRef\<close>, which is not
  \<open>bool\<close> even without reference and cv-qualifiers.  For an iterator that is a class the
  code relates the two types in no way.
\<close>

theorem value_type_is_not_dereference_type_counterexample:
  "iterator_t example_program (Arr (Const SInt) 5) = Some (Ptr (Const SInt)) \<and>
   value_type example_program (Ptr (Const SInt)) = Some SInt \<and>
   reference_t example_program (decay (Ptr (Const SInt))) = Some (LRef (Const SInt)) \<and>
   value_type example_program (Ptr (Const SInt))
     \<noteq> reference_t example_program (decay (Ptr (Const SInt))) \<and>
   value_type example_program (Ptr (Const SInt))
     \<noteq> map_option remove_reference (reference_t example_program (decay (Ptr (Const SInt)))) \<and>
   Range bits_program (Class ''BitVec'') \<and>
   iterator_t bits_program (Class ''BitVec'') = Some (Class ''BitIterator'') \<and>
   value_type bits_program (Class ''BitIterator'') = Some Bool \<and>
   reference_t bits_program (decay (Class ''BitIterator'')) = Some (Class ''BitRef'') \<and>
   value_type bits_program (Class ''BitIterator'')
     \<noteq> map_option (\<lambda>E. remove_cv (remove_reference E))
          (reference_t bits_program (decay (Class ''BitIterator'')))"
proof -
  have a: "iterator_t example_program (Arr (Const SInt) 5) = Some (Ptr (Const SInt)) \<and>
   value_type example_program (Ptr (Const SInt)) = Some SInt \<and>
   reference_t example_program (decay (Ptr (Const SInt))) = Some (LRef (Const SInt))"
    by (simp add: iterator_t_def array_begin_cpo is_object_def pointer_associated_types)
  have b: "Range bits_program (Class ''BitVec'') \<and>
   iterator_t bits_program (Class ''BitVec'') = Some (Class ''BitIterator'') \<and>
   value_type bits_program (Class ''BitIterator'') = Some Bool \<and>
   reference_t bits_program (decay (Class ''BitIterator'')) = Some (Class ''BitRef'')"
    by code_simp
  from a b show ?thesis by simp
qed

section \<open>The range overload of next_permutation\<close>

lemma pointer_to_int_sortable: "Sortable env (Ptr SInt) StdLess"
  by (simp add: type_defs expr_defs trait_defs detect_defs concept_defs iter_defs algo_defs)

lemma pointer_to_int_bidirectional: "BidirectionalIterator env (Ptr SInt)"
  using pointer_to_int_random_access [of env] by (simp add: RandomAccessIterator_def)

lemma no_begin_on_pointer_to_int: "begin_cpo env Lvalue (Ptr SInt) = None"
  by (simp add: begin_cpo_def overload_select_def begin_viable_def has_member_begin_v_def
      has_nonmember_begin_v_def member_begin_t_def nonmember_begin_t_def member_call_def
      free_call_def detected_t_def detector_def Iterator_Nonesuch)

lemma array_of_int_bidirectional_range: "BidirectionalRange env (LRef (Arr SInt N))"
  by (simp add: BidirectionalRange_def Range_def Same_def iterator_t_def sentinel_t_def
      array_begin_cpo array_end_cpo is_object_def detected_t_Some
      pointer_to_int_bidirectional
      pointer_to_int_bidirectional [unfolded BidirectionalIterator_def ForwardIterator_def
        InputIterator_def])

text \<open>
  On a built-in array of \<open>int\<close> the range overload of \<open>next_permutation\<close> is not
  invocable, as \<open>begin\<close> cannot be called on an \<open>int*\<close>; the iterator overload and the
  range overload of \<open>prev_permutation\<close> are.
\<close>

lemma int_array_permutation_overloads:
  "\<not> next_permutation_range_invocable env Lvalue (Arr SInt N) StdLess \<and>
   next_permutation_iter_requires env (Ptr SInt) StdLess \<and>
   prev_permutation_range_requires env (deduce_forwarding Lvalue (Arr SInt N)) StdLess"
proof -
  have a: "iterator_t env (LRef (Arr SInt N)) = Some (Ptr SInt)"
    by (simp add: iterator_t_def array_begin_cpo is_object_def)
  have b: "iterator_t env (Ptr SInt) = None"
    by (simp add: iterator_t_def no_begin_on_pointer_to_int)
  show ?thesis
    by (simp add: next_permutation_range_invocable_def next_permutation_range_requires_def
        next_permutation_iter_requires_def prev_permutation_range_requires_def
        deduce_forwarding_def a b pointer_to_int_bidirectional pointer_to_int_sortable
        array_of_int_bidirectional_range)
qed


section \<open>The range overload of is_permutation\<close>

text \<open>
  The range overload calls the algorithm on \<open>[begin(range1), end(range2))\<close> and
  \<open>[begin(range2), end(range2))\<close>.
\<close>

lemma is_permutation_range_argument_order:
  "begin_value range1 = Some a \<Longrightarrow> begin_value range2 = Some c \<Longrightarrow>
   end_value range2 = Some d \<Longrightarrow>
   is_permutation_range std range1 range2 pred = is_permutation_iter std a d c d pred"
  by (simp add: is_permutation_range_def is_permutation_iter_def)

lemma equal_of_ranges_argument_order:
  "begin_value range1 = Some a \<Longrightarrow> end_value range1 = Some b \<Longrightarrow>
   begin_value range2 = Some c \<Longrightarrow> end_value range2 = Some d \<Longrightarrow>
   equal_of_ranges std range1 range2 pred = std a b c d pred"
  by (simp add: equal_of_ranges_def)

text \<open>
  C3 fails on the code.  For the arrays \<open>{1, 2, 3}\<close> and \<open>{3, 2, 1}\<close> the range
  overload calls \<open>std::is_permutation\<close> on a first range that starts in the first array
  and ends in the second, which is undefined; the iterator overload on each range's own
  bounds answers true.  The range overload of \<open>equal\<close> does pair each range with its own
  bounds.
\<close>

theorem is_permutation_range_failing_input:
  "is_permutation_range (std_is_permutation [[1, 2, 3], [3, 2, 1]])
     (Array_range \<lparr> arr_obj = 0, arr_len = 3 \<rparr>) (Array_range \<lparr> arr_obj = 1, arr_len = 3 \<rparr>)
     (=) = None \<and>
   is_permutation_iter (std_is_permutation [[1, 2, 3], [3, 2, 1]])
     \<lparr> ptr_obj = 0, ptr_len = 3, ptr_off = 0 \<rparr> \<lparr> ptr_obj = 0, ptr_len = 3, ptr_off = 3 \<rparr>
     \<lparr> ptr_obj = 1, ptr_len = 3, ptr_off = 0 \<rparr> \<lparr> ptr_obj = 1, ptr_len = 3, ptr_off = 3 \<rparr>
     (=) = Some True \<and>
   begin_value (Array_range \<lparr> arr_obj = 0, arr_len = 3 \<rparr>)
     = Some \<lparr> ptr_obj = 0, ptr_len = 3, ptr_off = 0 \<rparr> \<and>
   end_value (Array_range \<lparr> arr_obj = 0, arr_len = 3 \<rparr>)
     = Some \<lparr> ptr_obj = 0, ptr_len = 3, ptr_off = 3 \<rparr> \<and>
   begin_value (Array_range \<lparr> arr_obj = 1, arr_len = 3 \<rparr>)
     = Some \<lparr> ptr_obj = 1, ptr_len = 3, ptr_off = 0 \<rparr> \<and>
   end_value (Array_range \<lparr> arr_obj = 1, arr_len = 3 \<rparr>)
     = Some \<lparr> ptr_obj = 1, ptr_len = 3, ptr_off = 3 \<rparr>"
  by (simp add: is_permutation_range_def is_permutation_iter_def
      std_is_permutation_def valid_range_def elements_def begin_array_def end_array_def
      ptr_add_def array_to_pointer_def)

text \<open>
  With two ranges over one array the call is defined and its answer is wrong: the first
  range, taken up to the end of the second, is empty.
\<close>

lemma is_permutation_range_views:
  "is_permutation_range (std_is_permutation [[1, 2, 3, 3, 2, 1]])
     (Class_range \<lparr> ptr_obj = 0, ptr_len = 6, ptr_off = 3 \<rparr> \<lparr> ptr_obj = 0, ptr_len = 6, ptr_off = 6 \<rparr>)
     (Class_range \<lparr> ptr_obj = 0, ptr_len = 6, ptr_off = 0 \<rparr> \<lparr> ptr_obj = 0, ptr_len = 6, ptr_off = 3 \<rparr>)
     (=) = Some False \<and>
   is_permutation_iter (std_is_permutation [[1, 2, 3, 3, 2, 1]])
     \<lparr> ptr_obj = 0, ptr_len = 6, ptr_off = 3 \<rparr> \<lparr> ptr_obj = 0, ptr_len = 6, ptr_off = 6 \<rparr>
     \<lparr> ptr_obj = 0, ptr_len = 6, ptr_off = 0 \<rparr> \<lparr> ptr_obj = 0, ptr_len = 6, ptr_off = 3 \<rparr>
     (=) = Some True"
  by (simp add: is_permutation_range_def is_permutation_iter_def
      std_is_permutation_def valid_range_def elements_def)

section \<open>The range overload of nth_element\<close>

text \<open>
  The range overload calls \<open>std::nth_element(begin(range), end(range), nth, comp)\<close>:
  \<open>end(range)\<close> in the place of \<open>nth\<close>, and \<open>nth\<close> in the place of \<open>last\<close>.
\<close>

lemma nth_element_range_argument_order:
  "begin_value rng = Some a \<Longrightarrow> end_value rng = Some b \<Longrightarrow>
   nth_element_range std rng nth_it cmp = nth_element_iter std a b nth_it cmp"
  by (simp add: nth_element_range_def nth_element_iter_def)

text \<open>
  C8 fails on the code.  For the array \<open>{3, 1, 2}\<close> and \<open>nth\<close> pointing to element 1,
  the range overload calls the algorithm with the range \<open>[end, nth)\<close>, which is
  undefined; the iterator overload on \<open>begin\<close>, \<open>nth\<close>, \<open>end\<close> orders the array.
\<close>

theorem nth_element_range_failing_input:
  "nth_element_range (std_nth_element [[3, 1, 2]]) (Array_range \<lparr> arr_obj = 0, arr_len = 3 \<rparr>)
     \<lparr> ptr_obj = 0, ptr_len = 3, ptr_off = 1 \<rparr> (<) = None \<and>
   nth_element_iter (std_nth_element [[3, 1, 2]])
     \<lparr> ptr_obj = 0, ptr_len = 3, ptr_off = 0 \<rparr> \<lparr> ptr_obj = 0, ptr_len = 3, ptr_off = 1 \<rparr>
     \<lparr> ptr_obj = 0, ptr_len = 3, ptr_off = 3 \<rparr> (<) = Some [[1, 2, 3]] \<and>
   begin_value (Array_range \<lparr> arr_obj = 0, arr_len = 3 \<rparr>)
     = Some \<lparr> ptr_obj = 0, ptr_len = 3, ptr_off = 0 \<rparr> \<and>
   end_value (Array_range \<lparr> arr_obj = 0, arr_len = 3 \<rparr>)
     = Some \<lparr> ptr_obj = 0, ptr_len = 3, ptr_off = 3 \<rparr>"
  by (simp add: nth_element_range_def nth_element_iter_def std_nth_element_def valid_range_def
      elements_def sort_by_def begin_array_def end_array_def ptr_add_def array_to_pointer_def)

end
